theory Spec2Isabelle
  imports Complex_Main "HOL-Library.Word"
begin

unbundle bit_operations_syntax

section \<open>The OSDI setup layer of ngspice (src/osdi/osdisetup.c)\<close>

text \<open>
  A shallow embedding of \<^verbatim>\<open>osdisetup.c\<close>. Conventions:
  \<^item> \<^verbatim>\<open>uint32_t\<close> is \<open>32 word\<close>; \<^verbatim>\<open>UINT32_MAX\<close> is the ground sentinel of the
    descriptor tables.
  \<^item> A C array together with its element count is a list, and the count is the
    length of the list (\<^verbatim>\<open>num_nodes\<close>, \<^verbatim>\<open>num_collapsible\<close>,
    \<^verbatim>\<open>num_jacobian_entries\<close>, \<^verbatim>\<open>num_errors\<close>). Reading an array out of range is
    undefined behaviour in C and unspecified (\<open>xs ! i\<close>) here: no theorem says what
    such a read yields, and the sample data keep every index in range.
  \<^item> The instance blob is a record of the sub-arrays that the descriptor's offsets
    locate in it. The sub-arrays are taken to be disjoint, as the layout contract
    of the descriptor says.
  \<^item> A \<^verbatim>\<open>double *\<close> is an address counted in coefficient slots; \<^verbatim>\<open>NULL\<close> is 0
    and \<^verbatim>\<open>ptr + 1\<close> is the next slot.
  \<^item> The collaborators that are not part of this file (the two ABI entry points of
    the descriptor, the node allocator, the matrix) are functions over a state
    \<open>'w\<close> of the world outside: circuit, matrix, model library.
  \<^item> Status codes are a datatype; the test \<^verbatim>\<open>if (res)\<close> is \<open>res \<noteq> OK\<close>.
  \<^item> \<^verbatim>\<open>printf\<close> and \<^verbatim>\<open>tprintf\<close> append a message, identified by its format and
    arguments, to an output log.
\<close>

subsection \<open>Data\<close>

type_synonym u32 = "32 word"
type_synonym addr = nat

definition UINT32_MAX :: u32 where
  "UINT32_MAX = 4294967295"

definition NULL :: addr where
  "NULL = 0"

datatype status = OK | E_PANIC | E_PRIVATE | E_NOMEM | E_CODE int

text \<open>
  The constants of \<^verbatim>\<open>osdi.h\<close> that the file uses. The header is not part of the
  sources, so the constants are parameters of the model.
\<close>

record osdi_h =
  EVAL_RET_FLAG_FATAL :: u32
  EVAL_RET_FLAG_FINISH :: u32
  INIT_ERR_OUT_OF_BOUNDS :: u32

record OsdiInitError =
  code :: u32
  parameter_id :: u32

record OsdiInitInfo =
  flags :: u32
  errors :: "OsdiInitError list"

record OsdiNgspiceHandle =
  kind :: u32
  name :: string

record OsdiNode =
  name :: string
  is_flow :: bool
  react_residual_off :: u32

record OsdiNodePair =
  node_1 :: u32
  node_2 :: u32

record OsdiJacobianEntry =
  nodes :: OsdiNodePair
  react_ptr_off :: u32

record OsdiParamOpvar =
  name :: "string list"

record OsdiInstance =
  node_mapping :: "u32 list"
  collapsed :: "bool list"
  state_idx :: "u32 list"
  jacobian_ptr_resist :: "addr list"
  jacobian_ptr_react :: "u32 \<Rightarrow> addr"

text \<open>
  The descriptor. \<open>setup_model\<close> and \<open>setup_instance\<close> are its two entry points;
  they write their \<^verbatim>\<open>OsdiInitInfo\<close> result, may change the model data
  \<open>'md\<close> and the instance, and may have effects outside (\<open>'w\<close>).
\<close>

record ('w, 'md, 'sp) OsdiDescriptor =
  nodes :: "OsdiNode list"
  num_terminals :: u32
  collapsible :: "OsdiNodePair list"
  jacobian_entries :: "OsdiJacobianEntry list"
  num_states :: u32
  param_opvar :: "OsdiParamOpvar list"
  setup_model :: "OsdiNgspiceHandle \<Rightarrow> 'md \<Rightarrow> 'sp \<Rightarrow> 'w \<Rightarrow> OsdiInitInfo \<times> 'md \<times> 'w"
  setup_instance :: "OsdiNgspiceHandle \<Rightarrow> OsdiInstance \<Rightarrow> 'md \<Rightarrow> real \<Rightarrow> u32 \<Rightarrow> 'sp \<Rightarrow> 'w
                       \<Rightarrow> OsdiInitInfo \<times> OsdiInstance \<times> 'md \<times> 'w"

datatype message =
  Parameter_out_of_bounds string
  | Unknown_init_error u32
  | Errors_occurred u32
  | Ptr_not_found addr

record io_state =
  stdout :: "message list"
  errMsg :: "message option"
  freed :: "OsdiInitError list list"

subsection \<open>handle\_init\_info\<close>

definition report_init_error ::
  "osdi_h \<Rightarrow> ('w, 'md, 'sp) OsdiDescriptor \<Rightarrow> OsdiInitError \<Rightarrow> message" where
  "report_init_error h descr err =
     (if code err = INIT_ERR_OUT_OF_BOUNDS h
      then Parameter_out_of_bounds
             (OsdiParamOpvar.name (param_opvar descr ! unat (parameter_id err)) ! 0)
      else Unknown_init_error (code err))"

definition fatal_or_finish :: "osdi_h \<Rightarrow> OsdiInitInfo \<Rightarrow> bool" where
  "fatal_or_finish h info =
     (flags info AND (EVAL_RET_FLAG_FATAL h OR EVAL_RET_FLAG_FINISH h) \<noteq> 0)"

definition handle_init_info ::
  "osdi_h \<Rightarrow> OsdiInitInfo \<Rightarrow> ('w, 'md, 'sp) OsdiDescriptor \<Rightarrow> io_state \<Rightarrow> status \<times> io_state" where
  "handle_init_info h info descr io =
     (if fatal_or_finish h info then (E_PANIC, io)
      else if errors info = [] then (OK, io)
      else (E_PRIVATE,
            io\<lparr>stdout := stdout io @ map (report_init_error h descr) (errors info),
               freed := freed io @ [errors info],
               errMsg := Some (Errors_occurred (of_nat (length (errors info))))\<rparr>))"

text \<open>An \<^verbatim>\<open>OsdiInitInfo\<close> that reports nothing: no flag of the two, no error.\<close>

definition init_ok :: "osdi_h \<Rightarrow> OsdiInitInfo \<Rightarrow> bool" where
  "init_ok h info = (\<not> fatal_or_finish h info \<and> errors info = [])"

subsection \<open>collapse\_nodes\<close>

text \<open>
  The body of the loop over \<open>j\<close>: what one entry of \<open>node_mapping\<close> becomes when
  the representative \<open>from\<close> is merged into \<open>to\<close>.
\<close>

definition collapse_entry :: "u32 \<Rightarrow> u32 \<Rightarrow> u32 \<Rightarrow> u32" where
  "collapse_entry from to v =
     (if v = from then to
      else if v > from \<and> v \<noteq> UINT32_MAX then v - 1
      else v)"

text \<open>
  The head of the loop over the collapsible pairs, for a pair whose flag is set:
  \<open>None\<close> when terminal protection skips the pair, otherwise the representative
  to remove and its target, after the orientation step.
\<close>

definition collapse_target :: "u32 \<Rightarrow> OsdiNodePair \<Rightarrow> u32 list \<Rightarrow> (u32 \<times> u32) option" where
  "collapse_target connected_terminals p nm =
     (let from = node_1 p; to = node_2 p in
      if nm ! unat from < connected_terminals \<and>
         (to = UINT32_MAX \<or> nm ! unat to < connected_terminals \<or> nm ! unat to = UINT32_MAX)
      then None
      else
        let (from, to) =
              (if to \<noteq> UINT32_MAX \<and> nm ! unat from < nm ! unat to then (to, from) else (from, to));
            from = nm ! unat from;
            to = (if to \<noteq> UINT32_MAX then nm ! unat to else to)
        in Some (from, to))"

definition collapse_pair :: "u32 \<Rightarrow> OsdiNodePair \<Rightarrow> u32 list \<times> u32 \<Rightarrow> u32 list \<times> u32" where
  "collapse_pair connected_terminals p s =
     (case collapse_target connected_terminals p (fst s) of
        None \<Rightarrow> s
      | Some (from, to) \<Rightarrow> (map (collapse_entry from to) (fst s), snd s - 1))"

definition collapse_iter ::
  "('w, 'md, 'sp) OsdiDescriptor \<Rightarrow> bool list \<Rightarrow> u32 \<Rightarrow> u32 list \<times> u32 \<Rightarrow> nat \<Rightarrow> u32 list \<times> u32" where
  "collapse_iter descr cflags connected_terminals s i =
     (if \<not> cflags ! i then s else collapse_pair connected_terminals (collapsible descr ! i) s)"

definition collapse_nodes ::
  "('w, 'md, 'sp) OsdiDescriptor \<Rightarrow> OsdiInstance \<Rightarrow> u32 \<Rightarrow> u32 \<times> OsdiInstance" where
  "collapse_nodes descr inst connected_terminals =
     (let n = length (OsdiDescriptor.nodes descr);
          s = foldl (collapse_iter descr (collapsed inst) connected_terminals)
                (map of_nat [0..<n], of_nat n) [0..<length (collapsible descr)]
      in (snd s, inst\<lparr>node_mapping := fst s\<rparr>))"

subsection \<open>write\_node\_mapping and write\_state\_ids\<close>

definition write_node_mapping ::
  "('w, 'md, 'sp) OsdiDescriptor \<Rightarrow> OsdiInstance \<Rightarrow> u32 list \<Rightarrow> OsdiInstance" where
  "write_node_mapping descr inst ids =
     inst\<lparr>node_mapping :=
       map (\<lambda>i. if node_mapping inst ! i = UINT32_MAX then 0
                else ids ! unat (node_mapping inst ! i))
         [0..<length (OsdiDescriptor.nodes descr)]\<rparr>"

definition write_state_ids ::
  "('w, 'md, 'sp) OsdiDescriptor \<Rightarrow> OsdiInstance \<Rightarrow> u32 \<Rightarrow> OsdiInstance" where
  "write_state_ids descr inst state_start =
     inst\<lparr>state_idx := map (\<lambda>i. state_start + of_nat i) [0..<unat (num_states descr)]\<rparr>"

subsection \<open>init\_matrix\<close>

text \<open>
  The simulator side, outside this file: \<^verbatim>\<open>get_simparams\<close>, the circuit
  temperature, the node allocators \<^verbatim>\<open>CKTmkVolt\<close> and \<^verbatim>\<open>CKTmkCur\<close> (error code,
  number of the new node, circuit afterwards) and the matrix operation
  \<^verbatim>\<open>SMPmakeElt\<close> (address of the coefficient, matrix afterwards).
\<close>

record ('w, 'sp) ngspice =
  get_simparams :: "'w \<Rightarrow> 'sp"
  CKTtemp :: "'w \<Rightarrow> real"
  CKTmkVolt :: "'w \<Rightarrow> string \<Rightarrow> string \<Rightarrow> status \<times> u32 \<times> 'w"
  CKTmkCur :: "'w \<Rightarrow> string \<Rightarrow> string \<Rightarrow> status \<times> u32 \<times> 'w"
  SMPmakeElt :: "'w \<Rightarrow> u32 \<Rightarrow> u32 \<Rightarrow> addr \<times> 'w"

text \<open>The (equation, unknown) pair of Jacobian entry \<open>i\<close>, resolved through \<open>node_mapping\<close>.\<close>

definition resolved :: "('w, 'md, 'sp) OsdiDescriptor \<Rightarrow> OsdiInstance \<Rightarrow> nat \<Rightarrow> u32 \<times> u32" where
  "resolved descr inst i =
     (let e = jacobian_entries descr ! i
      in (node_mapping inst ! unat (node_1 (OsdiJacobianEntry.nodes e)),
          node_mapping inst ! unat (node_2 (OsdiJacobianEntry.nodes e))))"

text \<open>What the loop body stores once \<^verbatim>\<open>SMPmakeElt\<close> has returned a non-null \<open>ptr\<close>.\<close>

definition store_ptr ::
  "('w, 'md, 'sp) OsdiDescriptor \<Rightarrow> nat \<Rightarrow> addr \<Rightarrow> OsdiInstance \<Rightarrow> OsdiInstance" where
  "store_ptr descr i ptr inst =
     (let inst1 = inst\<lparr>jacobian_ptr_resist := (jacobian_ptr_resist inst)[i := ptr]\<rparr>;
          react_off = react_ptr_off (jacobian_entries descr ! i)
      in if react_off \<noteq> UINT32_MAX
         then inst1\<lparr>jacobian_ptr_react := (jacobian_ptr_react inst1)(react_off := ptr + 1)\<rparr>
         else inst1)"

fun init_matrix_loop ::
  "('w \<Rightarrow> u32 \<Rightarrow> u32 \<Rightarrow> addr \<times> 'w) \<Rightarrow> ('w, 'md, 'sp) OsdiDescriptor \<Rightarrow> nat list
     \<Rightarrow> OsdiInstance \<Rightarrow> 'w \<Rightarrow> status \<times> OsdiInstance \<times> 'w" where
  "init_matrix_loop mk descr [] inst matrix = (OK, inst, matrix)"
| "init_matrix_loop mk descr (i # rest) inst matrix =
     (case mk matrix (fst (resolved descr inst i)) (snd (resolved descr inst i)) of
        (ptr, matrix1) \<Rightarrow>
          if ptr = NULL then (E_NOMEM, inst, matrix1)
          else init_matrix_loop mk descr rest (store_ptr descr i ptr inst) matrix1)"

definition init_matrix ::
  "('w \<Rightarrow> u32 \<Rightarrow> u32 \<Rightarrow> addr \<times> 'w) \<Rightarrow> ('w, 'md, 'sp) OsdiDescriptor
     \<Rightarrow> OsdiInstance \<Rightarrow> 'w \<Rightarrow> status \<times> OsdiInstance \<times> 'w" where
  "init_matrix mk descr inst matrix =
     init_matrix_loop mk descr [0..<length (jacobian_entries descr)] inst matrix"

text \<open>
  The matrix after the requests for the entries \<open>js\<close>, one \<^verbatim>\<open>SMPmakeElt\<close> call for
  each in turn.
\<close>

definition requested_upto ::
  "('w \<Rightarrow> u32 \<Rightarrow> u32 \<Rightarrow> addr \<times> 'w) \<Rightarrow> ('w, 'md, 'sp) OsdiDescriptor \<Rightarrow> OsdiInstance \<Rightarrow> 'w
     \<Rightarrow> nat list \<Rightarrow> 'w" where
  "requested_upto mk descr inst matrix js =
     foldl (\<lambda>c i. snd (mk c (fst (resolved descr inst i)) (snd (resolved descr inst i)))) matrix js"

subsection \<open>init\_matrix\_klu\<close>

record BindElement =
  COO :: addr
  CSC :: addr
  CSC_Complex :: addr

text \<open>
  \<open>srch key bindings\<close> stands for \<^verbatim>\<open>bsearch(&tmp, bindings, nz, sizeof(BindElement),
  BindCompare)\<close>; the comparison function is not part of the sources. \<open>None\<close> is
  the null result.
\<close>

definition klu_entry ::
  "(BindElement \<Rightarrow> BindElement list \<Rightarrow> BindElement option) \<Rightarrow> BindElement list
     \<Rightarrow> ('w, 'md, 'sp) OsdiDescriptor \<Rightarrow> nat \<Rightarrow> OsdiInstance \<times> addr list \<times> io_state
     \<Rightarrow> status \<times> OsdiInstance \<times> addr list \<times> io_state" where
  "klu_entry srch bindings descr i s =
     (case s of (inst, ptrs, con) \<Rightarrow>
        if fst (resolved descr inst i) \<noteq> 0 \<and> snd (resolved descr inst i) \<noteq> 0 then
          (case srch \<lparr>COO = jacobian_ptr_resist inst ! i, CSC = NULL, CSC_Complex = NULL\<rparr> bindings of
             None \<Rightarrow>
               (E_PANIC, inst, ptrs,
                con\<lparr>stdout := stdout con @ [Ptr_not_found (jacobian_ptr_resist inst ! i)]\<rparr>)
           | Some matched \<Rightarrow>
               let react_off = react_ptr_off (jacobian_entries descr ! i);
                   inst1 = (if react_off \<noteq> UINT32_MAX
                            then inst\<lparr>jacobian_ptr_react :=
                                   (jacobian_ptr_react inst)(react_off := CSC_Complex matched + 1)\<rparr>
                            else inst);
                   inst2 = inst1\<lparr>jacobian_ptr_resist := (jacobian_ptr_resist inst1)[i := CSC matched]\<rparr>
               in (OK, inst2, ptrs[2 * i := CSC matched, 2 * i + 1 := CSC_Complex matched], con))
        else (OK, inst, ptrs, con))"

fun init_matrix_klu_loop ::
  "(BindElement \<Rightarrow> BindElement list \<Rightarrow> BindElement option) \<Rightarrow> BindElement list
     \<Rightarrow> ('w, 'md, 'sp) OsdiDescriptor \<Rightarrow> nat list \<Rightarrow> OsdiInstance \<times> addr list \<times> io_state
     \<Rightarrow> status \<times> OsdiInstance \<times> addr list \<times> io_state" where
  "init_matrix_klu_loop srch bindings descr [] s = (OK, s)"
| "init_matrix_klu_loop srch bindings descr (i # rest) s =
     (case klu_entry srch bindings descr i s of
        (r, s1) \<Rightarrow> if r \<noteq> OK then (r, s1) else init_matrix_klu_loop srch bindings descr rest s1)"

definition init_matrix_klu ::
  "(BindElement \<Rightarrow> BindElement list \<Rightarrow> BindElement option) \<Rightarrow> BindElement list
     \<Rightarrow> ('w, 'md, 'sp) OsdiDescriptor \<Rightarrow> OsdiInstance \<Rightarrow> addr list \<Rightarrow> io_state
     \<Rightarrow> status \<times> OsdiInstance \<times> addr list \<times> io_state" where
  "init_matrix_klu srch bindings descr inst inst_matrix_ptrs con =
     init_matrix_klu_loop srch bindings descr [0..<length (jacobian_entries descr)]
       (inst, inst_matrix_ptrs, con)"

subsection \<open>OSDIsetup\<close>

record OsdiExtraInstData =
  temp_given :: bool
  temp :: real
  dt_given :: bool
  dt :: real

text \<open>
  A \<^verbatim>\<open>GENinstance\<close>: its header fields, the terminal array behind the header
  (an \<^verbatim>\<open>int\<close> array, \<open>- 1\<close> for a terminal that is not connected), and the two
  blobs that \<^verbatim>\<open>osdi_instance_data\<close> and \<^verbatim>\<open>osdi_extra_instance_data\<close> locate.
  The linked lists \<^verbatim>\<open>GENnextInstance\<close> and \<^verbatim>\<open>GENnextModel\<close> are lists.
\<close>

record GENinstance =
  GENname :: string
  GENstate :: int
  terminals :: "u32 list"
  osdi_instance_data :: OsdiInstance
  osdi_extra_instance_data :: OsdiExtraInstData

record 'md GENmodel =
  GENmodName :: string
  osdi_model_data :: 'md
  GENinstances :: "GENinstance list"

text \<open>
  The state that a setup pass threads through its loops: the local \<open>res\<close>, the
  globals \<open>errRtn\<close> and \<open>errMsg\<close> with the output and the freed error arrays
  (\<open>console\<close>), the circuit with its matrix (\<open>ckt\<close>), the temporary buffer
  \<open>node_ids\<close> and the counter \<^verbatim>\<open>*states\<close>. The counter is a C \<^verbatim>\<open>int\<close>; its
  overflow is undefined, and the model counts in \<open>int\<close>.
\<close>

record 'w setup_state =
  res :: status
  errRtn :: "string option"
  console :: io_state
  ckt :: 'w
  node_ids :: "u32 list"
  states :: int

definition count_states :: "('w, 'md, 'sp) OsdiDescriptor \<Rightarrow> int" where
  "count_states descr =
     foldl (\<lambda>n nd. if react_residual_off nd \<noteq> UINT32_MAX then n + 2 else n)
       (sint (num_states descr)) (OsdiDescriptor.nodes descr)"

definition effective_temp :: "real \<Rightarrow> OsdiExtraInstData \<Rightarrow> real" where
  "effective_temp t extra_inst_data =
     (let t1 = (if temp_given extra_inst_data then temp extra_inst_data else t)
      in if dt_given extra_inst_data then t1 + dt extra_inst_data else t1)"

definition count_connected :: "('w, 'md, 'sp) OsdiDescriptor \<Rightarrow> u32 list \<Rightarrow> u32" where
  "count_connected descr terms =
     (case find (\<lambda>i. terms ! i = - 1) [0..<unat (num_terminals descr)] of
        None \<Rightarrow> num_terminals descr
      | Some i \<Rightarrow> of_nat i)"

text \<open>
  The loop that creates the internal nodes \<open>connected_terminals \<le> i < num_nodes\<close>;
  the first component is the error that makes \<^verbatim>\<open>OSDIsetup\<close> return.
\<close>

fun create_internal_nodes ::
  "('w, 'sp) ngspice \<Rightarrow> ('w, 'md, 'sp) OsdiDescriptor \<Rightarrow> string \<Rightarrow> nat list
     \<Rightarrow> u32 list \<Rightarrow> 'w \<Rightarrow> status \<times> u32 list \<times> 'w" where
  "create_internal_nodes nk descr gname [] ids c = (OK, ids, c)"
| "create_internal_nodes nk descr gname (i # rest) ids c =
     (case (if is_flow (OsdiDescriptor.nodes descr ! i)
            then CKTmkCur nk c gname (OsdiNode.name (OsdiDescriptor.nodes descr ! i))
            else CKTmkVolt nk c gname (OsdiNode.name (OsdiDescriptor.nodes descr ! i))) of
        (error, number, c1) \<Rightarrow>
          if error \<noteq> OK then (error, ids, c1)
          else create_internal_nodes nk descr gname rest (ids[i := number]) c1)"

text \<open>
  The second half of the loop body, from \<^verbatim>\<open>collapse_nodes\<close> to the reservation
  of the state slots. \<open>Some e\<close> is \<^verbatim>\<open>return e\<close>, \<open>None\<close> is the end of the body.
\<close>

definition bind_instance ::
  "('w, 'sp) ngspice \<Rightarrow> ('w, 'md, 'sp) OsdiDescriptor \<Rightarrow> int \<Rightarrow> u32 \<Rightarrow> OsdiInstance
     \<Rightarrow> GENinstance \<Rightarrow> 'w setup_state \<Rightarrow> status option \<times> GENinstance \<times> 'w setup_state" where
  "bind_instance nk descr num_st connected_terminals inst gen_inst st =
     (case collapse_nodes descr inst connected_terminals of
        (num_nodes, inst1) \<Rightarrow>
          (case create_internal_nodes nk descr (GENname gen_inst)
                  [unat connected_terminals..<unat num_nodes]
                  (take (unat connected_terminals) (terminals gen_inst)
                     @ drop (unat connected_terminals) (node_ids st))
                  (ckt st) of
             (error, ids, c1) \<Rightarrow>
               if error \<noteq> OK
               then (Some error, gen_inst\<lparr>osdi_instance_data := inst1\<rparr>,
                     st\<lparr>node_ids := ids, ckt := c1\<rparr>)
               else
                 (case init_matrix (SMPmakeElt nk) descr (write_node_mapping descr inst1 ids) c1 of
                    (err, inst3, c2) \<Rightarrow>
                      if err \<noteq> OK
                      then (Some err, gen_inst\<lparr>osdi_instance_data := inst3\<rparr>,
                            st\<lparr>node_ids := ids, ckt := c2\<rparr>)
                      else (None,
                            gen_inst\<lparr>GENstate := states st,
                                     osdi_instance_data :=
                                       write_state_ids descr inst3 (word_of_int (states st))\<rparr>,
                            st\<lparr>node_ids := ids, ckt := c2, states := states st + num_st\<rparr>))))"

text \<open>The body of the loop over the instances of one model.\<close>

definition setup_instance_step ::
  "osdi_h \<Rightarrow> ('w, 'sp) ngspice \<Rightarrow> ('w, 'md, 'sp) OsdiDescriptor \<Rightarrow> 'sp \<Rightarrow> int
     \<Rightarrow> GENinstance \<Rightarrow> 'md \<Rightarrow> 'w setup_state
     \<Rightarrow> status option \<times> GENinstance \<times> 'md \<times> 'w setup_state" where
  "setup_instance_step h nk descr sim_params num_st gen_inst model st =
     (let connected_terminals = count_connected descr (terminals gen_inst) in
      case setup_instance descr \<lparr>kind = 2, name = GENname gen_inst\<rparr>
             (osdi_instance_data gen_inst) model
             (effective_temp (CKTtemp nk (ckt st)) (osdi_extra_instance_data gen_inst))
             connected_terminals sim_params (ckt st) of
        (init_info, inst, model1, c1) \<Rightarrow>
          (case handle_init_info h init_info descr (console st) of
             (r, con1) \<Rightarrow>
               if r \<noteq> OK
               then (None, gen_inst\<lparr>osdi_instance_data := inst\<rparr>, model1,
                     st\<lparr>res := r, errRtn := Some ''OSDI setup_instance'',
                        console := con1, ckt := c1\<rparr>)
               else
                 (case bind_instance nk descr num_st connected_terminals inst gen_inst
                         (st\<lparr>res := r, console := con1, ckt := c1\<rparr>) of
                    (ret, gen_inst1, st1) \<Rightarrow> (ret, gen_inst1, model1, st1))))"

fun setup_instances ::
  "osdi_h \<Rightarrow> ('w, 'sp) ngspice \<Rightarrow> ('w, 'md, 'sp) OsdiDescriptor \<Rightarrow> 'sp \<Rightarrow> int
     \<Rightarrow> GENinstance list \<Rightarrow> 'md \<Rightarrow> 'w setup_state
     \<Rightarrow> status option \<times> GENinstance list \<times> 'md \<times> 'w setup_state" where
  "setup_instances h nk descr sim_params num_st [] model st = (None, [], model, st)"
| "setup_instances h nk descr sim_params num_st (gen_inst # rest) model st =
     (case setup_instance_step h nk descr sim_params num_st gen_inst model st of
        (Some e, gen_inst1, model1, st1) \<Rightarrow> (Some e, gen_inst1 # rest, model1, st1)
      | (None, gen_inst1, model1, st1) \<Rightarrow>
          (case setup_instances h nk descr sim_params num_st rest model1 st1 of
             (ret, rest1, model2, st2) \<Rightarrow> (ret, gen_inst1 # rest1, model2, st2)))"

text \<open>The body of the loop over the models.\<close>

definition setup_model_step ::
  "osdi_h \<Rightarrow> ('w, 'sp) ngspice \<Rightarrow> ('w, 'md, 'sp) OsdiDescriptor \<Rightarrow> 'sp \<Rightarrow> int
     \<Rightarrow> 'md GENmodel \<Rightarrow> 'w setup_state \<Rightarrow> status option \<times> 'md GENmodel \<times> 'w setup_state" where
  "setup_model_step h nk descr sim_params num_st gen_model st =
     (case setup_model descr \<lparr>kind = 1, name = GENmodName gen_model\<rparr>
             (osdi_model_data gen_model) sim_params (ckt st) of
        (init_info, model1, c1) \<Rightarrow>
          (case handle_init_info h init_info descr (console st) of
             (r, con1) \<Rightarrow>
               if r \<noteq> OK
               then (None, gen_model\<lparr>osdi_model_data := model1\<rparr>,
                     st\<lparr>res := r, errRtn := Some ''OSDI setup_model'', console := con1, ckt := c1\<rparr>)
               else
                 (case setup_instances h nk descr sim_params num_st (GENinstances gen_model) model1
                         (st\<lparr>res := r, console := con1, ckt := c1\<rparr>) of
                    (ret, insts1, model2, st1) \<Rightarrow>
                      (ret, gen_model\<lparr>osdi_model_data := model2, GENinstances := insts1\<rparr>, st1))))"

fun setup_models ::
  "osdi_h \<Rightarrow> ('w, 'sp) ngspice \<Rightarrow> ('w, 'md, 'sp) OsdiDescriptor \<Rightarrow> 'sp \<Rightarrow> int
     \<Rightarrow> 'md GENmodel list \<Rightarrow> 'w setup_state
     \<Rightarrow> status option \<times> 'md GENmodel list \<times> 'w setup_state" where
  "setup_models h nk descr sim_params num_st [] st = (None, [], st)"
| "setup_models h nk descr sim_params num_st (gen_model # rest) st =
     (case setup_model_step h nk descr sim_params num_st gen_model st of
        (Some e, gen_model1, st1) \<Rightarrow> (Some e, gen_model1 # rest, st1)
      | (None, gen_model1, st1) \<Rightarrow>
          (case setup_models h nk descr sim_params num_st rest st1 of
             (ret, rest1, st2) \<Rightarrow> (ret, gen_model1 # rest1, st2)))"

text \<open>
  \<^verbatim>\<open>OSDIsetup\<close>. The state at entry gives the globals, the circuit and \<^verbatim>\<open>*states\<close>;
  \<open>res\<close> starts as \<open>OK\<close> and \<open>node_ids\<close> as the buffer that \<^verbatim>\<open>TMALLOC\<close> returns
  (zero-filled). The result is the returned status, the models and the state
  at the return.
\<close>

definition OSDIsetup ::
  "osdi_h \<Rightarrow> ('w, 'sp) ngspice \<Rightarrow> ('w, 'md, 'sp) OsdiDescriptor \<Rightarrow> 'md GENmodel list
     \<Rightarrow> 'w setup_state \<Rightarrow> status \<times> 'md GENmodel list \<times> 'w setup_state" where
  "OSDIsetup h nk descr inModel st =
     (case setup_models h nk descr (get_simparams nk (ckt st)) (count_states descr) inModel
             (st\<lparr>res := OK, node_ids := replicate (length (OsdiDescriptor.nodes descr)) 0\<rparr>) of
        (Some e, models1, st1) \<Rightarrow> (e, models1, st1)
      | (None, models1, st1) \<Rightarrow> (res st1, models1, st1))"

subsection \<open>State slots of a pass\<close>



section \<open>Sample data\<close>

text \<open>
  Concrete collaborators and descriptors on which the theorems below are
  instantiated. \<open>h0\<close> gives the header constants sample values. The sample
  simulator numbers new nodes from a counter and records every \<^verbatim>\<open>SMPmakeElt\<close>
  request and every call of an entry point.
\<close>

record sim =
  next_node :: u32
  requests :: "(u32 \<times> u32) list"
  calls :: "string list"

definition h0 :: osdi_h where
  "h0 = \<lparr>EVAL_RET_FLAG_FATAL = 2, EVAL_RET_FLAG_FINISH = 4, INIT_ERR_OUT_OF_BOUNDS = 1\<rparr>"

definition nk0 :: "(sim, unit) ngspice" where
  "nk0 = \<lparr>get_simparams = (\<lambda>c. ()),
           CKTtemp = (\<lambda>c. 300),
           CKTmkVolt = (\<lambda>c g n. (OK, next_node c, c\<lparr>next_node := next_node c + 1\<rparr>)),
           CKTmkCur = (\<lambda>c g n. (OK, next_node c, c\<lparr>next_node := next_node c + 1\<rparr>)),
           SMPmakeElt = (\<lambda>c e u. (2 * length (requests c) + 2, c\<lparr>requests := requests c @ [(e, u)]\<rparr>))\<rparr>"

definition sim0 :: sim where
  "sim0 = \<lparr>next_node = 10, requests = [], calls = []\<rparr>"

definition con0 :: io_state where
  "con0 = \<lparr>stdout = [], errMsg = None, freed = []\<rparr>"

definition st0 :: "sim setup_state" where
  "st0 = \<lparr>res = OK, errRtn = None, console = con0, ckt = sim0, node_ids = [], states = 0\<rparr>"

definition voltage_node :: "string \<Rightarrow> u32 \<Rightarrow> OsdiNode" where
  "voltage_node n off = \<lparr>OsdiNode.name = n, is_flow = False, react_residual_off = off\<rparr>"

definition info_ok :: OsdiInitInfo where
  "info_ok = \<lparr>flags = 0, errors = []\<rparr>"

definition info_fatal :: OsdiInitInfo where
  "info_fatal = \<lparr>flags = 2, errors = [\<lparr>code = 1, parameter_id = 0\<rparr>]\<rparr>"

definition info_errors :: OsdiInitInfo where
  "info_errors = \<lparr>flags = 0, errors = [\<lparr>code = 1, parameter_id = 0\<rparr>, \<lparr>code = 7, parameter_id = 0\<rparr>]\<rparr>"

definition blank_instance :: OsdiInstance where
  "blank_instance =
     \<lparr>node_mapping = [0, 0, 0, 0], collapsed = [False], state_idx = [0, 0],
      jacobian_ptr_resist = [0, 0, 0], jacobian_ptr_react = (\<lambda>off. 0)\<rparr>"

definition no_extra :: OsdiExtraInstData where
  "no_extra = \<lparr>temp_given = False, temp = 0, dt_given = False, dt = 0\<rparr>"

text \<open>
  A three-terminal device with one internal node that the model collapses into
  the source terminal. \<open>setup_model\<close> reports a fatal flag for the model named
  \<open>M1\<close>; \<open>setup_instance\<close> sets the collapse flag.
\<close>

definition d_fet :: "(sim, unit, unit) OsdiDescriptor" where
  "d_fet =
     \<lparr>nodes = [voltage_node ''drain'' UINT32_MAX, voltage_node ''gate'' UINT32_MAX,
               voltage_node ''source'' UINT32_MAX, voltage_node ''internal_a'' 16],
      num_terminals = 3,
      collapsible = [\<lparr>node_1 = 3, node_2 = 2\<rparr>],
      jacobian_entries =
        [\<lparr>OsdiJacobianEntry.nodes = \<lparr>node_1 = 0, node_2 = 3\<rparr>, react_ptr_off = 40\<rparr>,
         \<lparr>OsdiJacobianEntry.nodes = \<lparr>node_1 = 3, node_2 = 0\<rparr>, react_ptr_off = UINT32_MAX\<rparr>,
         \<lparr>OsdiJacobianEntry.nodes = \<lparr>node_1 = 1, node_2 = 1\<rparr>, react_ptr_off = 48\<rparr>],
      num_states = 2,
      param_opvar = [\<lparr>OsdiParamOpvar.name = [''rs'']\<rparr>],
      setup_model =
        (\<lambda>hd m sp c. (if OsdiNgspiceHandle.name hd = ''M1'' then info_fatal else info_ok, m,
                      c\<lparr>calls := calls c @ [OsdiNgspiceHandle.name hd]\<rparr>)),
      setup_instance =
        (\<lambda>hd i m t n sp c. (info_ok, i\<lparr>collapsed := [True]\<rparr>, m,
                            c\<lparr>calls := calls c @ [OsdiNgspiceHandle.name hd]\<rparr>))\<rparr>"

definition fet_instance :: "string \<Rightarrow> u32 list \<Rightarrow> GENinstance" where
  "fet_instance n ts =
     \<lparr>GENname = n, GENstate = 0, terminals = ts, osdi_instance_data = blank_instance,
      osdi_extra_instance_data = no_extra\<rparr>"

definition M1 :: "unit GENmodel" where
  "M1 = \<lparr>GENmodName = ''M1'', osdi_model_data = (),
          GENinstances = [fet_instance ''I1'' [1, 2, 3]]\<rparr>"

definition M2 :: "unit GENmodel" where
  "M2 = \<lparr>GENmodName = ''M2'', osdi_model_data = (),
          GENinstances = [fet_instance ''I2'' [1, 2, 3], fet_instance ''I3'' [3, 4, 0]]\<rparr>"

text \<open>
  One terminal and three internal nodes \<open>a\<close>, \<open>b\<close>, \<open>c\<close>; the model can collapse
  \<open>a\<close> to ground and \<open>b\<close> into \<open>a\<close>, and does both for the instance named \<open>I2\<close>.
\<close>

definition d_gnd :: "(sim, unit, unit) OsdiDescriptor" where
  "d_gnd =
     \<lparr>nodes = [voltage_node ''t'' UINT32_MAX, voltage_node ''a'' UINT32_MAX,
               voltage_node ''b'' UINT32_MAX, voltage_node ''c'' UINT32_MAX],
      num_terminals = 1,
      collapsible = [\<lparr>node_1 = 1, node_2 = UINT32_MAX\<rparr>, \<lparr>node_1 = 2, node_2 = 1\<rparr>],
      jacobian_entries = [\<lparr>OsdiJacobianEntry.nodes = \<lparr>node_1 = 1, node_2 = 0\<rparr>, react_ptr_off = UINT32_MAX\<rparr>],
      num_states = 0,
      param_opvar = [],
      setup_model = (\<lambda>hd m sp c. (info_ok, m, c)),
      setup_instance =
        (\<lambda>hd i m t n sp c.
           (info_ok,
            i\<lparr>collapsed := (if OsdiNgspiceHandle.name hd = ''I2'' then [True, True]
                              else [False, False])\<rparr>, m, c))\<rparr>"

definition gnd_instance :: OsdiInstance where
  "gnd_instance = blank_instance\<lparr>collapsed := [True, True]\<rparr>"

definition M_gnd :: "unit GENmodel" where
  "M_gnd = \<lparr>GENmodName = ''M'', osdi_model_data = (),
             GENinstances = [fet_instance ''I1'' [1], fet_instance ''I2'' [2]]\<rparr>"

definition bound_instance :: OsdiInstance where
  "bound_instance = blank_instance\<lparr>node_mapping := [1, 2, 3, 3]\<rparr>"

definition grounded_instance :: OsdiInstance where
  "grounded_instance = blank_instance\<lparr>node_mapping := [3, 4, 0, 0]\<rparr>"

text \<open>A binding table search that finds nothing.\<close>

definition no_binding :: "BindElement \<Rightarrow> BindElement list \<Rightarrow> BindElement option" where
  "no_binding key bindings = None"

section \<open>Properties\<close>

subsection \<open>handle\_init\_info\<close>

lemma fatal_or_finish_iff:
  "fatal_or_finish h info \<longleftrightarrow>
     flags info AND EVAL_RET_FLAG_FATAL h \<noteq> 0 \<or> flags info AND EVAL_RET_FLAG_FINISH h \<noteq> 0"
  by (simp add: fatal_or_finish_def bit.conj_disj_distrib or_eq_0_iff)

text \<open>
  \<^bold>\<open>C10.\<close> When the fatal or the finish flag of an \<^verbatim>\<open>OsdiInitInfo\<close> is set,
  \<^verbatim>\<open>handle_init_info\<close> returns \<open>E_PANIC\<close> and leaves the output, the freed arrays and
  \<open>errMsg\<close> as they were, whatever errors the info carries. Anything is reported
  only when neither flag is set and the error list is not empty; then every
  error is printed, the array is freed, \<open>errMsg\<close> gets the count and the status is
  \<open>E_PRIVATE\<close>.
\<close>

theorem handle_init_info_panic_before_errors:
  "(flags info AND EVAL_RET_FLAG_FATAL h \<noteq> 0 \<or> flags info AND EVAL_RET_FLAG_FINISH h \<noteq> 0
      \<longrightarrow> handle_init_info h info descr con = (E_PANIC, con)) \<and>
   (snd (handle_init_info h info descr con) \<noteq> con
      \<longrightarrow> flags info AND EVAL_RET_FLAG_FATAL h = 0 \<and> flags info AND EVAL_RET_FLAG_FINISH h = 0
          \<and> errors info \<noteq> []) \<and>
   (flags info AND EVAL_RET_FLAG_FATAL h = 0 \<and> flags info AND EVAL_RET_FLAG_FINISH h = 0
      \<and> errors info \<noteq> []
      \<longrightarrow> fst (handle_init_info h info descr con) = E_PRIVATE
          \<and> stdout (snd (handle_init_info h info descr con))
              = stdout con @ map (report_init_error h descr) (errors info)
          \<and> freed (snd (handle_init_info h info descr con)) = freed con @ [errors info]
          \<and> errMsg (snd (handle_init_info h info descr con))
              = Some (Errors_occurred (of_nat (length (errors info)))))"
  by (auto simp add: handle_init_info_def fatal_or_finish_iff)

theorem handle_init_info_panic_before_errors_witness:
  "flags info_fatal AND EVAL_RET_FLAG_FATAL h0 \<noteq> 0 \<and> errors info_fatal \<noteq> [] \<and>
   handle_init_info h0 info_fatal d_fet con0 = (E_PANIC, con0) \<and>
   flags info_errors AND EVAL_RET_FLAG_FATAL h0 = 0 \<and>
   flags info_errors AND EVAL_RET_FLAG_FINISH h0 = 0 \<and>
   fst (handle_init_info h0 info_errors d_fet con0) = E_PRIVATE \<and>
   stdout (snd (handle_init_info h0 info_errors d_fet con0))
     = [Parameter_out_of_bounds ''rs'', Unknown_init_error 7] \<and>
   errMsg (snd (handle_init_info h0 info_errors d_fet con0)) = Some (Errors_occurred 2)"
proof -
  have f: "flags info_fatal AND EVAL_RET_FLAG_FATAL h0 \<noteq> 0"
    by (simp add: info_fatal_def h0_def)
  have e: "flags info_errors AND EVAL_RET_FLAG_FATAL h0 = 0
           \<and> flags info_errors AND EVAL_RET_FLAG_FINISH h0 = 0 \<and> errors info_errors \<noteq> []"
    by (simp add: info_errors_def h0_def)
  have r: "map (report_init_error h0 d_fet) (errors info_errors)
           = [Parameter_out_of_bounds ''rs'', Unknown_init_error 7]"
    by (simp add: report_init_error_def info_errors_def h0_def d_fet_def)
  show ?thesis
    using f e r
      handle_init_info_panic_before_errors [of info_fatal h0 d_fet con0]
      handle_init_info_panic_before_errors [of info_errors h0 d_fet con0]
    by (simp add: con0_def info_fatal_def info_errors_def)
qed

subsection \<open>collapse\_nodes\<close>





text \<open>
  \<^bold>\<open>C3.\<close> On the descriptor \<open>d_gnd\<close> with one connected terminal, where
  node \<open>a\<close> is collapsed to ground and then \<open>b\<close> into \<open>a\<close>, \<^verbatim>\<open>collapse_nodes\<close> returns the
  count 2 while node \<open>c\<close> is mapped to the compacted index 2, which is not below the
  count; the two grounded nodes are mapped to index 1.
\<close>

theorem collapse_nodes_ground_then_merge:
  "fst (collapse_nodes d_gnd gnd_instance 1) = 2 \<and>
   node_mapping (snd (collapse_nodes d_gnd gnd_instance 1)) = [0, 1, 1, 2]"
  by code_simp

subsection \<open>init\_matrix\<close>

lemma store_ptr_frame:
  "node_mapping (store_ptr descr i ptr inst) = node_mapping inst"
  "collapsed (store_ptr descr i ptr inst) = collapsed inst"
  "state_idx (store_ptr descr i ptr inst) = state_idx inst"
  "length (jacobian_ptr_resist (store_ptr descr i ptr inst)) = length (jacobian_ptr_resist inst)"
  by (simp_all add: store_ptr_def Let_def)

lemma store_ptr_resist:
  "jacobian_ptr_resist (store_ptr descr i ptr inst) = (jacobian_ptr_resist inst)[i := ptr]"
  by (simp add: store_ptr_def Let_def)

lemma store_ptr_react:
  "jacobian_ptr_react (store_ptr descr i ptr inst) off =
     (if react_ptr_off (jacobian_entries descr ! i) \<noteq> UINT32_MAX
         \<and> off = react_ptr_off (jacobian_entries descr ! i)
      then ptr + 1 else jacobian_ptr_react inst off)"
  by (simp add: store_ptr_def Let_def)

lemma resolved_cong:
  "node_mapping inst1 = node_mapping inst \<Longrightarrow> resolved descr inst1 i = resolved descr inst i"
  by (simp add: resolved_def)

lemma init_matrix_loop_frame:
  "init_matrix_loop mk descr js inst c = (r, inst1, c1) \<Longrightarrow>
     node_mapping inst1 = node_mapping inst \<and> collapsed inst1 = collapsed inst \<and>
     state_idx inst1 = state_idx inst \<and>
     length (jacobian_ptr_resist inst1) = length (jacobian_ptr_resist inst)"
proof (induction js arbitrary: inst c)
  case Nil
  then show ?case by simp
next
  case (Cons i js)
  obtain ptr c2 where mk: "mk c (fst (resolved descr inst i)) (snd (resolved descr inst i)) = (ptr, c2)"
    by (cases "mk c (fst (resolved descr inst i)) (snd (resolved descr inst i))")
  show ?case
  proof (cases "ptr = NULL")
    case True
    with Cons.prems mk show ?thesis by simp
  next
    case False
    with Cons.prems mk
    have "init_matrix_loop mk descr js (store_ptr descr i ptr inst) c2 = (r, inst1, c1)"
      by simp
    from Cons.IH [OF this] show ?thesis
      by (simp add: store_ptr_frame)
  qed
qed

lemma init_matrix_loop_keeps:
  "init_matrix_loop mk descr js inst c = (r, inst1, c1) \<Longrightarrow>
     (i \<notin> set js \<longrightarrow> jacobian_ptr_resist inst1 ! i = jacobian_ptr_resist inst ! i) \<and>
     ((\<forall>j\<in>set js. react_ptr_off (jacobian_entries descr ! j) = UINT32_MAX
                   \<or> react_ptr_off (jacobian_entries descr ! j) \<noteq> off)
        \<longrightarrow> jacobian_ptr_react inst1 off = jacobian_ptr_react inst off)"
proof (induction js arbitrary: inst c)
  case Nil
  then show ?case by simp
next
  case (Cons k js)
  obtain ptr c2 where mk: "mk c (fst (resolved descr inst k)) (snd (resolved descr inst k)) = (ptr, c2)"
    by (cases "mk c (fst (resolved descr inst k)) (snd (resolved descr inst k))")
  show ?case
  proof (cases "ptr = NULL")
    case True
    with Cons.prems mk show ?thesis by simp
  next
    case False
    with Cons.prems mk
    have "init_matrix_loop mk descr js (store_ptr descr k ptr inst) c2 = (r, inst1, c1)"
      by simp
    from Cons.IH [OF this] show ?thesis
      by (auto simp add: store_ptr_resist store_ptr_react)
  qed
qed

lemma upt_split_at:
  assumes "i < n"
  shows "[0..<n] = [0..<i] @ i # [Suc i..<n]"
proof -
  have a: "[0..<n] = [0..<i] @ [i..<n]"
    using upt_add_eq_append [of 0 i "n - i"] assms by simp
  have b: "[i..<n] = i # [Suc i..<n]"
    using assms by (rule upt_conv_Cons)
  show ?thesis
    by (simp only: a b)
qed

lemma init_matrix_loop_keeps_resist:
  "init_matrix_loop mk descr js inst c = (r, inst1, c1) \<Longrightarrow> i \<notin> set js \<Longrightarrow>
     jacobian_ptr_resist inst1 ! i = jacobian_ptr_resist inst ! i"
  using init_matrix_loop_keeps [of mk descr js inst c r inst1 c1 i] by simp

lemma init_matrix_loop_keeps_react:
  "init_matrix_loop mk descr js inst c = (r, inst1, c1) \<Longrightarrow>
     \<forall>j\<in>set js. react_ptr_off (jacobian_entries descr ! j) = UINT32_MAX
                  \<or> react_ptr_off (jacobian_entries descr ! j) \<noteq> off \<Longrightarrow>
     jacobian_ptr_react inst1 off = jacobian_ptr_react inst off"
  using init_matrix_loop_keeps [of mk descr js inst c r inst1 c1 _ off] by simp

lemma init_matrix_loop_append:
  "init_matrix_loop mk descr (js @ ks) inst c =
     (case init_matrix_loop mk descr js inst c of
        (r, inst1, c1) \<Rightarrow> if r = OK then init_matrix_loop mk descr ks inst1 c1 else (r, inst1, c1))"
proof (induction js arbitrary: inst c)
  case Nil
  then show ?case by simp
next
  case (Cons i js)
  show ?case
    by (cases "mk c (fst (resolved descr inst i)) (snd (resolved descr inst i))")
       (simp add: Cons.IH)
qed

lemma init_matrix_loop_status:
  "fst (init_matrix_loop mk descr js inst c) = OK \<or> fst (init_matrix_loop mk descr js inst c) = E_NOMEM"
proof (induction js arbitrary: inst c)
  case Nil
  then show ?case by simp
next
  case (Cons i js)
  show ?case
    using Cons.IH
    by (cases "mk c (fst (resolved descr inst i)) (snd (resolved descr inst i))") simp
qed

lemma init_matrix_loop_requests:
  "init_matrix_loop mk descr js inst c = (OK, inst1, c1) \<Longrightarrow>
     c1 = requested_upto mk descr inst c js"
proof (induction js arbitrary: inst c)
  case Nil
  then show ?case by (simp add: requested_upto_def)
next
  case (Cons i js)
  obtain ptr c2 where mk: "mk c (fst (resolved descr inst i)) (snd (resolved descr inst i)) = (ptr, c2)"
    by (cases "mk c (fst (resolved descr inst i)) (snd (resolved descr inst i))")
  show ?case
  proof (cases "ptr = NULL")
    case True
    with Cons.prems mk show ?thesis by simp
  next
    case False
    with Cons.prems mk
    have run: "init_matrix_loop mk descr js (store_ptr descr i ptr inst) c2 = (OK, inst1, c1)"
      by simp
    have same: "requested_upto mk descr (store_ptr descr i ptr inst) c2 js
                = requested_upto mk descr inst c2 js"
      by (simp add: requested_upto_def resolved_cong [OF store_ptr_frame(1)])
    from Cons.IH [OF run] same mk show ?thesis
      by (simp add: requested_upto_def)
  qed
qed

text \<open>The run of the loop, cut at entry \<open>i\<close>.\<close>

lemma init_matrix_loop_cut:
  "init_matrix_loop mk descr (js @ i # ks) inst c = (OK, inst1, c1) \<Longrightarrow>
     \<exists>inst2 c2 ptr c3.
       init_matrix_loop mk descr js inst c = (OK, inst2, c2) \<and>
       mk c2 (fst (resolved descr inst2 i)) (snd (resolved descr inst2 i)) = (ptr, c3) \<and>
       ptr \<noteq> NULL \<and>
       init_matrix_loop mk descr ks (store_ptr descr i ptr inst2) c3 = (OK, inst1, c1)"
proof (induction js arbitrary: inst c)
  case Nil
  obtain ptr c3 where mk: "mk c (fst (resolved descr inst i)) (snd (resolved descr inst i)) = (ptr, c3)"
    by (cases "mk c (fst (resolved descr inst i)) (snd (resolved descr inst i))")
  show ?case
  proof (cases "ptr = NULL")
    case True
    with Nil mk show ?thesis by simp
  next
    case False
    with Nil mk show ?thesis by simp
  qed
next
  case (Cons j js)
  obtain ptr c3 where mk: "mk c (fst (resolved descr inst j)) (snd (resolved descr inst j)) = (ptr, c3)"
    by (cases "mk c (fst (resolved descr inst j)) (snd (resolved descr inst j))")
  show ?case
  proof (cases "ptr = NULL")
    case True
    with Cons.prems mk show ?thesis by simp
  next
    case False
    with Cons.prems mk
    have "init_matrix_loop mk descr (js @ i # ks) (store_ptr descr j ptr inst) c3 = (OK, inst1, c1)"
      by simp
    from Cons.IH [OF this] False mk show ?thesis
      by simp
  qed
qed

lemma init_matrix_at:
  assumes run: "init_matrix mk descr inst c = (OK, inst1, c1)"
    and i: "i < length (jacobian_entries descr)"
  obtains inst2 c2 ptr c3 where
    "init_matrix_loop mk descr [0..<i] inst c = (OK, inst2, c2)"
    "mk c2 (fst (resolved descr inst i)) (snd (resolved descr inst i)) = (ptr, c3)"
    "ptr \<noteq> NULL"
    "init_matrix_loop mk descr [Suc i..<length (jacobian_entries descr)] (store_ptr descr i ptr inst2) c3
       = (OK, inst1, c1)"
proof -
  have "init_matrix_loop mk descr ([0..<i] @ i # [Suc i..<length (jacobian_entries descr)]) inst c
          = (OK, inst1, c1)"
    using run upt_split_at [OF i] by (simp only: init_matrix_def)
  from init_matrix_loop_cut [OF this] obtain inst2 c2 ptr c3 where
    pre: "init_matrix_loop mk descr [0..<i] inst c = (OK, inst2, c2)" and
    mk: "mk c2 (fst (resolved descr inst2 i)) (snd (resolved descr inst2 i)) = (ptr, c3)" and
    rest: "ptr \<noteq> NULL"
      "init_matrix_loop mk descr [Suc i..<length (jacobian_entries descr)]
         (store_ptr descr i ptr inst2) c3 = (OK, inst1, c1)"
    by (elim exE conjE) (rule that)
  have "resolved descr inst2 i = resolved descr inst i"
    using init_matrix_loop_frame [OF pre] by (intro resolved_cong) simp
  with mk have "mk c2 (fst (resolved descr inst i)) (snd (resolved descr inst i)) = (ptr, c3)"
    by simp
  from that [OF pre this rest] show thesis .
qed

text \<open>
  \<^bold>\<open>C8.\<close> After a successful \<^verbatim>\<open>init_matrix\<close>, the slot at the reactive offset
  of an entry holds the address stored for that entry in the resistive table
  plus one, provided no later entry writes the same slot. The slots that no
  entry names as its reactive offset keep their value, and so do the other
  sub-arrays of the instance: an entry without a reactive component changes the
  resistive table only.
\<close>

theorem init_matrix_reactive_slot:
  assumes run: "init_matrix mk descr inst c = (OK, inst1, c1)"
  shows "(\<forall>i. i < length (jacobian_entries descr) \<and> i < length (jacobian_ptr_resist inst)
              \<and> react_ptr_off (jacobian_entries descr ! i) \<noteq> UINT32_MAX
              \<and> (\<forall>j. i < j \<and> j < length (jacobian_entries descr)
                     \<longrightarrow> react_ptr_off (jacobian_entries descr ! j)
                           \<noteq> react_ptr_off (jacobian_entries descr ! i))
            \<longrightarrow> jacobian_ptr_react inst1 (react_ptr_off (jacobian_entries descr ! i))
                 = jacobian_ptr_resist inst1 ! i + 1) \<and>
         (\<forall>off. (\<forall>i. i < length (jacobian_entries descr)
                     \<longrightarrow> react_ptr_off (jacobian_entries descr ! i) = UINT32_MAX
                         \<or> react_ptr_off (jacobian_entries descr ! i) \<noteq> off)
            \<longrightarrow> jacobian_ptr_react inst1 off = jacobian_ptr_react inst off) \<and>
         node_mapping inst1 = node_mapping inst \<and> collapsed inst1 = collapsed inst \<and>
         state_idx inst1 = state_idx inst"
proof (intro conjI allI impI)
  fix i
  assume h: "i < length (jacobian_entries descr) \<and> i < length (jacobian_ptr_resist inst)
              \<and> react_ptr_off (jacobian_entries descr ! i) \<noteq> UINT32_MAX
              \<and> (\<forall>j. i < j \<and> j < length (jacobian_entries descr)
                     \<longrightarrow> react_ptr_off (jacobian_entries descr ! j)
                           \<noteq> react_ptr_off (jacobian_entries descr ! i))"
  let ?off = "react_ptr_off (jacobian_entries descr ! i)"
  from h have i: "i < length (jacobian_entries descr)" by simp
  show "jacobian_ptr_react inst1 ?off = jacobian_ptr_resist inst1 ! i + 1"
  proof (rule init_matrix_at [OF run i])
    fix inst2 c2 ptr c3
    assume pre: "init_matrix_loop mk descr [0..<i] inst c = (OK, inst2, c2)"
      and post: "init_matrix_loop mk descr [Suc i..<length (jacobian_entries descr)]
                   (store_ptr descr i ptr inst2) c3 = (OK, inst1, c1)"
    have len: "i < length (jacobian_ptr_resist inst2)"
      using init_matrix_loop_frame [OF pre] h by simp
    have later: "\<forall>j\<in>set [Suc i..<length (jacobian_entries descr)].
        react_ptr_off (jacobian_entries descr ! j) = UINT32_MAX
        \<or> react_ptr_off (jacobian_entries descr ! j) \<noteq> ?off"
      using h by simp
    have "i \<notin> set [Suc i..<length (jacobian_entries descr)]"
      by simp
    from init_matrix_loop_keeps_resist [OF post this]
    have a: "jacobian_ptr_resist inst1 ! i = jacobian_ptr_resist (store_ptr descr i ptr inst2) ! i" .
    from init_matrix_loop_keeps_react [OF post later]
    have b: "jacobian_ptr_react inst1 ?off = jacobian_ptr_react (store_ptr descr i ptr inst2) ?off" .
    show ?thesis
      using h len by (simp add: a b store_ptr_resist store_ptr_react)
  qed
next
  fix off
  assume "\<forall>i. i < length (jacobian_entries descr)
             \<longrightarrow> react_ptr_off (jacobian_entries descr ! i) = UINT32_MAX
                 \<or> react_ptr_off (jacobian_entries descr ! i) \<noteq> off"
  then have "\<forall>j\<in>set [0..<length (jacobian_entries descr)].
      react_ptr_off (jacobian_entries descr ! j) = UINT32_MAX
      \<or> react_ptr_off (jacobian_entries descr ! j) \<noteq> off"
    by simp
  from init_matrix_loop_keeps_react [OF run [unfolded init_matrix_def] this]
  show "jacobian_ptr_react inst1 off = jacobian_ptr_react inst off" .
next
  show "node_mapping inst1 = node_mapping inst"
    using init_matrix_loop_frame [OF run [unfolded init_matrix_def]] by simp
next
  show "collapsed inst1 = collapsed inst"
    using init_matrix_loop_frame [OF run [unfolded init_matrix_def]] by simp
next
  show "state_idx inst1 = state_idx inst"
    using init_matrix_loop_frame [OF run [unfolded init_matrix_def]] by simp
qed

theorem init_matrix_reactive_slot_witness:
  "fst (init_matrix (SMPmakeElt nk0) d_fet bound_instance sim0) = OK \<and>
   react_ptr_off (jacobian_entries d_fet ! 0) = 40 \<and>
   jacobian_ptr_resist (fst (snd (init_matrix (SMPmakeElt nk0) d_fet bound_instance sim0))) = [2, 4, 6] \<and>
   jacobian_ptr_react (fst (snd (init_matrix (SMPmakeElt nk0) d_fet bound_instance sim0))) 40
     = jacobian_ptr_resist (fst (snd (init_matrix (SMPmakeElt nk0) d_fet bound_instance sim0))) ! 0 + 1 \<and>
   jacobian_ptr_react (fst (snd (init_matrix (SMPmakeElt nk0) d_fet bound_instance sim0))) 56
     = jacobian_ptr_react bound_instance 56 \<and>
   node_mapping (fst (snd (init_matrix (SMPmakeElt nk0) d_fet bound_instance sim0)))
     = node_mapping bound_instance"
proof -
  let ?r = "init_matrix (SMPmakeElt nk0) d_fet bound_instance sim0"
  have ok: "fst ?r = OK"
    by code_simp
  have run: "?r = (OK, fst (snd ?r), snd (snd ?r))"
    using ok by (simp add: prod_eq_iff)
  have offs: "react_ptr_off (jacobian_entries d_fet ! 0) = 40"
    "react_ptr_off (jacobian_entries d_fet ! 1) = UINT32_MAX"
    "react_ptr_off (jacobian_entries d_fet ! 2) = 48"
    "length (jacobian_entries d_fet) = 3"
    "length (jacobian_ptr_resist bound_instance) = 3"
    by (simp_all add: d_fet_def bound_instance_def blank_instance_def)
  have res: "jacobian_ptr_resist (fst (snd ?r)) = [2, 4, 6]"
    by code_simp
  note th = init_matrix_reactive_slot [OF run]
  have first: "jacobian_ptr_react (fst (snd ?r)) (react_ptr_off (jacobian_entries d_fet ! 0))
                = jacobian_ptr_resist (fst (snd ?r)) ! 0 + 1"
  proof (rule conjunct1 [OF th, rule_format])
    show "0 < length (jacobian_entries d_fet) \<and> 0 < length (jacobian_ptr_resist bound_instance)
            \<and> react_ptr_off (jacobian_entries d_fet ! 0) \<noteq> UINT32_MAX
            \<and> (\<forall>j. 0 < j \<and> j < length (jacobian_entries d_fet)
                   \<longrightarrow> react_ptr_off (jacobian_entries d_fet ! j)
                         \<noteq> react_ptr_off (jacobian_entries d_fet ! 0))"
    proof (intro conjI allI impI)
      fix j :: nat
      assume "0 < j \<and> j < length (jacobian_entries d_fet)"
      then have "j = 1 \<or> j = 2" using offs(4) by auto
      then show "react_ptr_off (jacobian_entries d_fet ! j) \<noteq> react_ptr_off (jacobian_entries d_fet ! 0)"
        using offs by (auto simp add: UINT32_MAX_def)
    qed (simp_all add: offs UINT32_MAX_def)
  qed
  have other: "jacobian_ptr_react (fst (snd ?r)) 56 = jacobian_ptr_react bound_instance 56"
  proof (rule conjunct1 [OF conjunct2 [OF th], rule_format])
    fix i :: nat
    assume "i < length (jacobian_entries d_fet)"
    then have "i = 0 \<or> i = 1 \<or> i = 2" using offs(4) by auto
    then show "react_ptr_off (jacobian_entries d_fet ! i) = UINT32_MAX
               \<or> react_ptr_off (jacobian_entries d_fet ! i) \<noteq> 56"
      using offs by auto
  qed
  have nm: "node_mapping (fst (snd ?r)) = node_mapping bound_instance"
    using th by simp
  show ?thesis
    using ok offs(1) res first other nm by simp
qed

subsection \<open>Ground entries in init\_matrix and init\_matrix\_klu\<close>

lemma klu_entry_ground:
  "fst (resolved descr inst i) = 0 \<or> snd (resolved descr inst i) = 0 \<Longrightarrow>
     klu_entry srch bindings descr i (inst, ptrs, con) = (OK, inst, ptrs, con)"
  by (auto simp add: klu_entry_def)

lemma klu_entry_frame:
  assumes "klu_entry srch bindings descr k (inst, ptrs, con) = (r, inst1, ptrs1, con1)"
  shows "node_mapping inst1 = node_mapping inst"
    and "k \<noteq> i \<Longrightarrow> jacobian_ptr_resist inst1 ! i = jacobian_ptr_resist inst ! i"
    and "k \<noteq> i \<Longrightarrow> ptrs1 ! (2 * i) = ptrs ! (2 * i)"
    and "k \<noteq> i \<Longrightarrow> ptrs1 ! (2 * i + 1) = ptrs ! (2 * i + 1)"
proof -
  have a: "2 * k \<noteq> 2 * i + 1" "2 * k + 1 \<noteq> 2 * i"
    by presburger+
  show "node_mapping inst1 = node_mapping inst"
    using assms by (auto simp add: klu_entry_def Let_def split: if_splits option.splits)
  show "k \<noteq> i \<Longrightarrow> jacobian_ptr_resist inst1 ! i = jacobian_ptr_resist inst ! i"
    using assms by (auto simp add: klu_entry_def Let_def split: if_splits option.splits)
  show "k \<noteq> i \<Longrightarrow> ptrs1 ! (2 * i) = ptrs ! (2 * i)"
    using assms a by (auto simp add: klu_entry_def Let_def split: if_splits option.splits)
  show "k \<noteq> i \<Longrightarrow> ptrs1 ! (2 * i + 1) = ptrs ! (2 * i + 1)"
    using assms a by (auto simp add: klu_entry_def Let_def split: if_splits option.splits)
qed

lemma init_matrix_klu_loop_ground:
  "init_matrix_klu_loop srch bindings descr js (inst, ptrs, con) = (r, inst1, ptrs1, con1) \<Longrightarrow>
   fst (resolved descr inst i) = 0 \<or> snd (resolved descr inst i) = 0 \<Longrightarrow>
     jacobian_ptr_resist inst1 ! i = jacobian_ptr_resist inst ! i \<and>
     ptrs1 ! (2 * i) = ptrs ! (2 * i) \<and> ptrs1 ! (2 * i + 1) = ptrs ! (2 * i + 1)"
proof (induction js arbitrary: inst ptrs con)
  case Nil
  then show ?case by simp
next
  case (Cons k js)
  obtain r2 inst2 ptrs2 con2 where
    step: "klu_entry srch bindings descr k (inst, ptrs, con) = (r2, inst2, ptrs2, con2)"
    by (cases "klu_entry srch bindings descr k (inst, ptrs, con)") auto
  have same: "k = i \<Longrightarrow> inst2 = inst \<and> ptrs2 = ptrs"
    using step klu_entry_ground [OF Cons.prems(2), of srch bindings ptrs con] by simp
  have keep: "jacobian_ptr_resist inst2 ! i = jacobian_ptr_resist inst ! i \<and>
              ptrs2 ! (2 * i) = ptrs ! (2 * i) \<and> ptrs2 ! (2 * i + 1) = ptrs ! (2 * i + 1)"
  proof (cases "k = i")
    case True
    with same show ?thesis by simp
  next
    case False
    with klu_entry_frame(2-4) [OF step, of i] show ?thesis by simp
  qed
  have nm: "resolved descr inst2 i = resolved descr inst i"
    by (intro resolved_cong) (rule klu_entry_frame(1) [OF step])
  show ?case
  proof (cases "r2 = OK")
    case True
    with Cons.prems(1) step
    have "init_matrix_klu_loop srch bindings descr js (inst2, ptrs2, con2) = (r, inst1, ptrs1, con1)"
      by simp
    from Cons.IH [OF this] nm Cons.prems(2) keep show ?thesis
      by simp
  next
    case False
    with Cons.prems(1) step have "inst1 = inst2 \<and> ptrs1 = ptrs2"
      by simp
    with keep show ?thesis by simp
  qed
qed

text \<open>
  \<^bold>\<open>C2\<close>, as stated, fails for \<^verbatim>\<open>init_matrix\<close>: with a node mapping whose nodes 2 and 3
  are ground, the entries \<open>(3, 0)\<close> and \<open>(0, 3)\<close> are requested from the matrix like
  any other, and the returned addresses are stored.
\<close>

theorem init_matrix_requests_ground_entry:
  "resolved d_fet grounded_instance 0 = (3, 0) \<and>
   resolved d_fet grounded_instance 1 = (0, 3) \<and>
   fst (init_matrix (SMPmakeElt nk0) d_fet grounded_instance sim0) = OK \<and>
   requests (snd (snd (init_matrix (SMPmakeElt nk0) d_fet grounded_instance sim0)))
     = [(3, 0), (0, 3), (4, 4)] \<and>
   jacobian_ptr_resist (fst (snd (init_matrix (SMPmakeElt nk0) d_fet grounded_instance sim0)))
     = [2, 4, 6] \<and>
   jacobian_ptr_react (fst (snd (init_matrix (SMPmakeElt nk0) d_fet grounded_instance sim0))) 40 = 3"
  by code_simp

text \<open>
  \<^bold>\<open>C2 (amended).\<close> \<^verbatim>\<open>init_matrix_klu\<close> skips every entry whose resolved pair
  has a ground endpoint: the loop body leaves instance, slot array and output
  as they are without searching the binding table, and after the whole loop the
  resistive address and the two cached slots of that entry are what they were.
  \<^verbatim>\<open>init_matrix\<close> has no such guard: a successful run has passed every declared
  entry, in order, to \<^verbatim>\<open>SMPmakeElt\<close>, and the table holds for each entry the address
  that its request returned.
\<close>

theorem ground_entries_skipped_by_klu_only:
  "(init_matrix_klu srch bindings descr inst ptrs con = (r, inst1, ptrs1, con1) \<longrightarrow>
      (\<forall>i. i < length (jacobian_entries descr)
            \<and> (fst (resolved descr inst i) = 0 \<or> snd (resolved descr inst i) = 0)
         \<longrightarrow> klu_entry srch bindings descr i (inst, ptrs, con) = (OK, inst, ptrs, con)
             \<and> jacobian_ptr_resist inst1 ! i = jacobian_ptr_resist inst ! i
             \<and> ptrs1 ! (2 * i) = ptrs ! (2 * i) \<and> ptrs1 ! (2 * i + 1) = ptrs ! (2 * i + 1))) \<and>
   (init_matrix mk descr inst c = (OK, inst2, c2) \<longrightarrow>
      c2 = requested_upto mk descr inst c [0..<length (jacobian_entries descr)]
      \<and> (\<forall>i. i < length (jacobian_entries descr) \<and> i < length (jacobian_ptr_resist inst)
           \<longrightarrow> jacobian_ptr_resist inst2 ! i
                = fst (mk (requested_upto mk descr inst c [0..<i])
                         (fst (resolved descr inst i)) (snd (resolved descr inst i)))))"
proof (intro conjI impI allI)
  fix i
  assume run: "init_matrix_klu srch bindings descr inst ptrs con = (r, inst1, ptrs1, con1)"
    and g: "i < length (jacobian_entries descr)
            \<and> (fst (resolved descr inst i) = 0 \<or> snd (resolved descr inst i) = 0)"
  from g have g': "fst (resolved descr inst i) = 0 \<or> snd (resolved descr inst i) = 0" by simp
  show "klu_entry srch bindings descr i (inst, ptrs, con) = (OK, inst, ptrs, con)"
    using g' by (rule klu_entry_ground)
  from init_matrix_klu_loop_ground [OF run [unfolded init_matrix_klu_def] g']
  show "jacobian_ptr_resist inst1 ! i = jacobian_ptr_resist inst ! i"
    and "ptrs1 ! (2 * i) = ptrs ! (2 * i)" and "ptrs1 ! (2 * i + 1) = ptrs ! (2 * i + 1)"
    by simp_all
next
  assume run: "init_matrix mk descr inst c = (OK, inst2, c2)"
  show "c2 = requested_upto mk descr inst c [0..<length (jacobian_entries descr)]"
    using run unfolding init_matrix_def by (rule init_matrix_loop_requests)
next
  fix i
  assume run: "init_matrix mk descr inst c = (OK, inst2, c2)"
    and h: "i < length (jacobian_entries descr) \<and> i < length (jacobian_ptr_resist inst)"
  from h have i: "i < length (jacobian_entries descr)" by simp
  show "jacobian_ptr_resist inst2 ! i
          = fst (mk (requested_upto mk descr inst c [0..<i])
                   (fst (resolved descr inst i)) (snd (resolved descr inst i)))"
  proof (rule init_matrix_at [OF run i])
    fix inst3 c3 ptr c4
    assume pre: "init_matrix_loop mk descr [0..<i] inst c = (OK, inst3, c3)"
      and mk: "mk c3 (fst (resolved descr inst i)) (snd (resolved descr inst i)) = (ptr, c4)"
      and post: "init_matrix_loop mk descr [Suc i..<length (jacobian_entries descr)]
                   (store_ptr descr i ptr inst3) c4 = (OK, inst2, c2)"
    have c3: "c3 = requested_upto mk descr inst c [0..<i]"
      using pre by (rule init_matrix_loop_requests)
    have len: "i < length (jacobian_ptr_resist inst3)"
      using init_matrix_loop_frame [OF pre] h by simp
    have "i \<notin> set [Suc i..<length (jacobian_entries descr)]" by simp
    from init_matrix_loop_keeps_resist [OF post this] len
    have "jacobian_ptr_resist inst2 ! i = ptr"
      by (simp add: store_ptr_resist)
    with mk c3 show ?thesis by simp
  qed
qed

theorem ground_entries_skipped_by_klu_only_witness:
  "resolved d_fet grounded_instance 0 = (3, 0) \<and>
   klu_entry no_binding [] d_fet 0 (grounded_instance, [7, 7, 7, 7, 7, 7], con0)
     = (OK, grounded_instance, [7, 7, 7, 7, 7, 7], con0) \<and>
   fst (init_matrix_klu no_binding [] d_fet grounded_instance [7, 7, 7, 7, 7, 7] con0) = E_PANIC \<and>
   jacobian_ptr_resist (fst (snd (init_matrix_klu no_binding [] d_fet grounded_instance
       [7, 7, 7, 7, 7, 7] con0))) ! 0 = 0 \<and>
   fst (init_matrix (SMPmakeElt nk0) d_fet grounded_instance sim0) = OK \<and>
   requests (snd (snd (init_matrix (SMPmakeElt nk0) d_fet grounded_instance sim0)))
     = requests (requested_upto (SMPmakeElt nk0) d_fet grounded_instance sim0 [0..<3]) \<and>
   jacobian_ptr_resist (fst (snd (init_matrix (SMPmakeElt nk0) d_fet grounded_instance sim0))) ! 0
     = fst (SMPmakeElt nk0 sim0 3 0)"
proof -
  let ?k = "init_matrix_klu no_binding [] d_fet grounded_instance [7, 7, 7, 7, 7, 7] con0"
  let ?m = "init_matrix (SMPmakeElt nk0) d_fet grounded_instance sim0"
  have rk: "?k = (fst ?k, fst (snd ?k), fst (snd (snd ?k)), snd (snd (snd ?k)))"
    by simp
  have ok: "fst ?m = OK"
    by code_simp
  have rm: "?m = (OK, fst (snd ?m), snd (snd ?m))"
    using ok by (simp add: prod_eq_iff)
  have g: "resolved d_fet grounded_instance 0 = (3, 0)"
    by code_simp
  have n: "length (jacobian_entries d_fet) = 3" "length (jacobian_ptr_resist grounded_instance) = 3"
    by (simp_all add: d_fet_def grounded_instance_def blank_instance_def)
  have p: "fst ?k = E_PANIC"
    by code_simp
  have z: "jacobian_ptr_resist grounded_instance ! 0 = 0"
    by (simp add: grounded_instance_def blank_instance_def)
  note th = ground_entries_skipped_by_klu_only
    [of no_binding "[]" d_fet grounded_instance "[7, 7, 7, 7, 7, 7]" con0
        "fst ?k" "fst (snd ?k)" "fst (snd (snd ?k))" "snd (snd (snd ?k))"
        "SMPmakeElt nk0" sim0 "fst (snd ?m)" "snd (snd ?m)"]
  from th rk have k1: "\<forall>i. i < length (jacobian_entries d_fet)
            \<and> (fst (resolved d_fet grounded_instance i) = 0 \<or> snd (resolved d_fet grounded_instance i) = 0)
         \<longrightarrow> klu_entry no_binding [] d_fet i (grounded_instance, [7, 7, 7, 7, 7, 7], con0)
               = (OK, grounded_instance, [7, 7, 7, 7, 7, 7], con0)
             \<and> jacobian_ptr_resist (fst (snd ?k)) ! i = jacobian_ptr_resist grounded_instance ! i
             \<and> fst (snd (snd ?k)) ! (2 * i) = [7, 7, 7, 7, 7, 7] ! (2 * i)
             \<and> fst (snd (snd ?k)) ! (2 * i + 1) = [7, 7, 7, 7, 7, 7] ! (2 * i + 1)"
    by blast
  from th rm have m1: "snd (snd ?m) = requested_upto (SMPmakeElt nk0) d_fet grounded_instance sim0
                          [0..<length (jacobian_entries d_fet)]"
    and m2: "\<forall>i. i < length (jacobian_entries d_fet) \<and> i < length (jacobian_ptr_resist grounded_instance)
           \<longrightarrow> jacobian_ptr_resist (fst (snd ?m)) ! i
                = fst (SMPmakeElt nk0 (requested_upto (SMPmakeElt nk0) d_fet grounded_instance sim0 [0..<i])
                         (fst (resolved d_fet grounded_instance i)) (snd (resolved d_fet grounded_instance i)))"
    by blast+
  have e0: "klu_entry no_binding [] d_fet 0 (grounded_instance, [7, 7, 7, 7, 7, 7], con0)
               = (OK, grounded_instance, [7, 7, 7, 7, 7, 7], con0)
            \<and> jacobian_ptr_resist (fst (snd ?k)) ! 0 = jacobian_ptr_resist grounded_instance ! 0"
    using k1 [rule_format, of 0] g n by simp
  have r0: "jacobian_ptr_resist (fst (snd ?m)) ! 0 = fst (SMPmakeElt nk0 sim0 3 0)"
    using m2 [rule_format, of 0] g n by (simp add: requested_upto_def)
  show ?thesis
    using g e0 p z ok m1 n r0 by simp
qed

subsection \<open>OSDIsetup\<close>

text \<open>
  \<^bold>\<open>C1\<close>, as stated, fails: for the list \<open>[M1, M2]\<close> where \<open>setup_model\<close> reports the
  fatal flag for \<open>M1\<close>, the pass goes on with \<open>M2\<close> and its instances and returns
  \<open>OK\<close>.
\<close>

theorem OSDIsetup_continues_after_fatal:
  "fatal_or_finish h0 (fst (setup_model d_fet \<lparr>kind = 1, name = GENmodName M1\<rparr>
       (osdi_model_data M1) () sim0)) \<and>
   fst (OSDIsetup h0 nk0 d_fet [M1, M2] st0) = OK \<and>
   calls (ckt (snd (snd (OSDIsetup h0 nk0 d_fet [M1, M2] st0)))) = [''M1'', ''M2'', ''I2'', ''I3'']"
  by code_simp

text \<open>
  \<^bold>\<open>C6.\<close> On \<open>d_gnd\<close>, the second instance collapses \<open>a\<close> to ground and
  \<open>b\<close> into \<open>a\<close>. Its node \<open>c\<close> ends with the global index 11, which is the index
  that was allocated for node \<open>b\<close> of the first instance and is still in the
  buffer \<open>node_ids\<close>: no index was assigned to the compacted node that \<open>c\<close>
  points to.
\<close>

theorem OSDIsetup_stale_node_id:
  "map (\<lambda>g. node_mapping (osdi_instance_data g))
     (concat (map GENinstances (fst (snd (OSDIsetup h0 nk0 d_gnd [M_gnd] st0)))))
   = [[1, 10, 11, 12], [2, 13, 13, 11]]"
  by code_simp

lemma upt_0_4: "[0..<4] = [0, 1, 2, Suc 2]"
  by code_simp

lemma write_state_ids_node_mapping:
  "node_mapping (write_state_ids descr inst s) = node_mapping inst"
  by (simp add: write_state_ids_def)

lemma init_matrix_node_mapping:
  "node_mapping (fst (snd (init_matrix mk descr inst c))) = node_mapping inst"
  using init_matrix_loop_frame [of mk descr "[0..<length (jacobian_entries descr)]" inst c
      "fst (init_matrix mk descr inst c)" "fst (snd (init_matrix mk descr inst c))"
      "snd (snd (init_matrix mk descr inst c))"]
  by (simp add: init_matrix_def)

lemma collapse_nodes_fet:
  assumes "length (OsdiDescriptor.nodes descr) = 4"
    and "collapsible descr = [\<lparr>node_1 = 3, node_2 = 2\<rparr>]"
    and "collapsed inst = [True]"
  shows "collapse_nodes descr inst 3 = (3, inst\<lparr>node_mapping := [0, 1, 2, 2]\<rparr>)"
  using assms
  by (simp add: collapse_nodes_def collapse_iter_def collapse_pair_def collapse_target_def
        collapse_entry_def UINT32_MAX_def upt_0_4)

lemma count_connected_all:
  assumes "num_terminals descr = 3" and "ts = [t0, t1, t2]"
    and "t0 \<noteq> - 1" and "t1 \<noteq> - 1" and "t2 \<noteq> - 1"
  shows "count_connected descr ts = 3"
proof -
  have "[0..<3] = [0, 1, Suc 1]" by code_simp
  then show ?thesis
    using assms by (simp add: count_connected_def)
qed

lemma bind_instance_fet:
  assumes n: "length (OsdiDescriptor.nodes descr) = 4"
    and c: "collapsible descr = [\<lparr>node_1 = 3, node_2 = 2\<rparr>]"
    and f: "collapsed inst = [True]"
    and t: "terminals gen_inst = [t0, t1, t2]"
  shows "bind_instance nk descr num_st 3 inst gen_inst st =
     (case init_matrix (SMPmakeElt nk) descr (inst\<lparr>node_mapping := [t0, t1, t2, t2]\<rparr>) (ckt st) of
        (err, inst3, c2) \<Rightarrow>
          if err \<noteq> OK
          then (Some err, gen_inst\<lparr>osdi_instance_data := inst3\<rparr>,
                st\<lparr>node_ids := t0 # t1 # t2 # drop 3 (node_ids st), ckt := c2\<rparr>)
          else (None,
                gen_inst\<lparr>GENstate := states st,
                         osdi_instance_data := write_state_ids descr inst3 (word_of_int (states st))\<rparr>,
                st\<lparr>node_ids := t0 # t1 # t2 # drop 3 (node_ids st), ckt := c2,
                   states := states st + num_st\<rparr>))"
  by (simp add: bind_instance_def collapse_nodes_fet [OF n c f] t write_node_mapping_def n
        upt_0_4 UINT32_MAX_def)

text \<open>
  \<^bold>\<open>C4.\<close> A descriptor with four nodes, three terminals and the collapsible
  pair \<open>(3, 2)\<close>, an instance whose flag for the pair is set, three connected
  terminals \<open>t0\<close>, \<open>t1\<close>, \<open>t2\<close>: \<^verbatim>\<open>collapse_nodes\<close> returns 3 and the mapping
  \<open>[0, 1, 2, 2]\<close>; the instance ends with the global mapping \<open>[t0, t1, t2, t2]\<close>,
  three distinct indices when the terminals are distinct; and the result does
  not depend on the node allocators, so no node is allocated.
\<close>

theorem collapse_internal_into_source:
  assumes n: "length (OsdiDescriptor.nodes descr) = 4"
    and nt: "num_terminals descr = 3"
    and c: "collapsible descr = [\<lparr>node_1 = 3, node_2 = 2\<rparr>]"
    and f: "collapsed inst = [True]"
    and t: "terminals gen_inst = [t0, t1, t2]"
    and u: "t0 \<noteq> - 1 \<and> t1 \<noteq> - 1 \<and> t2 \<noteq> - 1"
  shows "count_connected descr (terminals gen_inst) = 3 \<and>
         collapse_nodes descr inst 3 = (3, inst\<lparr>node_mapping := [0, 1, 2, 2]\<rparr>) \<and>
         node_mapping (osdi_instance_data (fst (snd (bind_instance nk descr num_st 3 inst gen_inst st))))
           = [t0, t1, t2, t2] \<and>
         (distinct [t0, t1, t2] \<longrightarrow>
            card (set (node_mapping (osdi_instance_data
              (fst (snd (bind_instance nk descr num_st 3 inst gen_inst st)))))) = 3) \<and>
         bind_instance (nk\<lparr>CKTmkVolt := mkv, CKTmkCur := mkc\<rparr>) descr num_st 3 inst gen_inst st
           = bind_instance nk descr num_st 3 inst gen_inst st"
proof -
  let ?m = "init_matrix (SMPmakeElt nk) descr (inst\<lparr>node_mapping := [t0, t1, t2, t2]\<rparr>) (ckt st)"
  have nm: "node_mapping (fst (snd ?m)) = [t0, t1, t2, t2]"
    by (simp add: init_matrix_node_mapping)
  have b: "node_mapping (osdi_instance_data (fst (snd (bind_instance nk descr num_st 3 inst gen_inst st))))
           = [t0, t1, t2, t2]"
    unfolding bind_instance_fet [OF n c f t]
    using nm by (cases ?m) (simp add: write_state_ids_node_mapping)
  have d: "distinct [t0, t1, t2] \<longrightarrow> card (set [t0, t1, t2, t2]) = 3"
    by (auto simp add: card_insert_if)
  have e: "bind_instance (nk\<lparr>CKTmkVolt := mkv, CKTmkCur := mkc\<rparr>) descr num_st 3 inst gen_inst st
           = bind_instance nk descr num_st 3 inst gen_inst st"
    by (simp add: bind_instance_fet [OF n c f t])
  show ?thesis
    using count_connected_all [OF nt t] u collapse_nodes_fet [OF n c f] b d e
    by simp
qed

theorem collapse_internal_into_source_witness:
  "length (OsdiDescriptor.nodes d_fet) = 4 \<and> num_terminals d_fet = 3 \<and>
   collapsible d_fet = [\<lparr>node_1 = 3, node_2 = 2\<rparr>] \<and>
   count_connected d_fet (terminals (fet_instance ''I2'' [1, 2, 3])) = 3 \<and>
   collapse_nodes d_fet (blank_instance\<lparr>collapsed := [True]\<rparr>) 3
     = (3, blank_instance\<lparr>collapsed := [True], node_mapping := [0, 1, 2, 2]\<rparr>) \<and>
   node_mapping (osdi_instance_data (fst (snd (bind_instance nk0 d_fet 4 3
     (blank_instance\<lparr>collapsed := [True]\<rparr>) (fet_instance ''I2'' [1, 2, 3]) st0)))) = [1, 2, 3, 3] \<and>
   card (set (node_mapping (osdi_instance_data (fst (snd (bind_instance nk0 d_fet 4 3
     (blank_instance\<lparr>collapsed := [True]\<rparr>) (fet_instance ''I2'' [1, 2, 3]) st0)))))) = 3 \<and>
   next_node (ckt (snd (snd (bind_instance nk0 d_fet 4 3
     (blank_instance\<lparr>collapsed := [True]\<rparr>) (fet_instance ''I2'' [1, 2, 3]) st0)))) = next_node sim0"
proof -
  have h: "length (OsdiDescriptor.nodes d_fet) = 4" "num_terminals d_fet = 3"
    "collapsible d_fet = [\<lparr>node_1 = 3, node_2 = 2\<rparr>]"
    "collapsed (blank_instance\<lparr>collapsed := [True]\<rparr>) = [True]"
    "terminals (fet_instance ''I2'' [1, 2, 3]) = [1, 2, 3]"
    "(1::u32) \<noteq> - 1 \<and> (2::u32) \<noteq> - 1 \<and> (3::u32) \<noteq> - 1"
    by (simp_all add: d_fet_def fet_instance_def)
  have k: "next_node (ckt (snd (snd (bind_instance nk0 d_fet 4 3
     (blank_instance\<lparr>collapsed := [True]\<rparr>) (fet_instance ''I2'' [1, 2, 3]) st0)))) = next_node sim0"
    by code_simp
  have dd: "distinct [1, 2, 3::u32]"
    by simp
  show ?thesis
    using collapse_internal_into_source [OF h, of nk0 4 st0] h(1-3) k dd
    by simp
qed

subsection \<open>Status flow of the setup pass\<close>

lemma handle_init_info_ok:
  "init_ok h info \<Longrightarrow> handle_init_info h info descr con = (OK, con)"
  by (simp add: handle_init_info_def init_ok_def)

lemma handle_init_info_fatal:
  "fatal_or_finish h info \<Longrightarrow> handle_init_info h info descr con = (E_PANIC, con)"
  by (simp add: handle_init_info_def)

lemma create_internal_nodes_ok:
  assumes "\<forall>c g n. fst (CKTmkVolt nk c g n) = OK" and "\<forall>c g n. fst (CKTmkCur nk c g n) = OK"
  shows "fst (create_internal_nodes nk descr gname js ids c) = OK"
proof (induction js arbitrary: ids c)
  case Nil
  show ?case by simp
next
  case (Cons i js)
  let ?a = "if is_flow (OsdiDescriptor.nodes descr ! i)
            then CKTmkCur nk c gname (OsdiNode.name (OsdiDescriptor.nodes descr ! i))
            else CKTmkVolt nk c gname (OsdiNode.name (OsdiDescriptor.nodes descr ! i))"
  have "fst ?a = OK"
    using assms by simp
  then obtain number c1 where a: "?a = (OK, number, c1)"
    by (cases ?a) auto
  show ?case
    using Cons.IH [of "ids[i := number]" c1] a by simp
qed

lemma init_matrix_loop_ok:
  assumes "\<forall>c e u. fst (mk c e u) \<noteq> NULL"
  shows "fst (init_matrix_loop mk descr js inst c) = OK"
proof (induction js arbitrary: inst c)
  case Nil
  show ?case by simp
next
  case (Cons i js)
  obtain ptr c1 where a: "mk c (fst (resolved descr inst i)) (snd (resolved descr inst i)) = (ptr, c1)"
    by (cases "mk c (fst (resolved descr inst i)) (snd (resolved descr inst i))")
  have "ptr \<noteq> NULL"
    using assms [rule_format, of c "fst (resolved descr inst i)" "snd (resolved descr inst i)"] a
    by simp
  then show ?case
    using Cons.IH [of "store_ptr descr i ptr inst" c1] a by simp
qed

lemma bind_instance_res:
  "res (snd (snd (bind_instance nk descr num_st ct inst gen_inst st))) = res st"
  by (simp add: bind_instance_def split: prod.splits)

lemma bind_instance_None:
  assumes "\<forall>c g n. fst (CKTmkVolt nk c g n) = OK" and "\<forall>c g n. fst (CKTmkCur nk c g n) = OK"
    and "\<forall>c e u. fst (SMPmakeElt nk c e u) \<noteq> NULL"
  shows "fst (bind_instance nk descr num_st ct inst gen_inst st) = None"
proof -
  obtain num_nodes inst1 where cn: "collapse_nodes descr inst ct = (num_nodes, inst1)"
    by (cases "collapse_nodes descr inst ct")
  let ?c = "create_internal_nodes nk descr (GENname gen_inst) [unat ct..<unat num_nodes]
              (take (unat ct) (terminals gen_inst) @ drop (unat ct) (node_ids st)) (ckt st)"
  have "fst ?c = OK"
    using assms(1,2) by (rule create_internal_nodes_ok)
  then obtain ids c1 where cr: "?c = (OK, ids, c1)"
    by (cases ?c) auto
  let ?m = "init_matrix (SMPmakeElt nk) descr (write_node_mapping descr inst1 ids) c1"
  have "fst ?m = OK"
    unfolding init_matrix_def using assms(3) by (rule init_matrix_loop_ok)
  then obtain inst3 c2 where im: "?m = (OK, inst3, c2)"
    by (cases ?m) auto
  show ?thesis
    by (simp add: bind_instance_def cn cr im)
qed

lemma setup_instance_step_None:
  assumes "\<forall>c g n. fst (CKTmkVolt nk c g n) = OK" and "\<forall>c g n. fst (CKTmkCur nk c g n) = OK"
    and "\<forall>c e u. fst (SMPmakeElt nk c e u) \<noteq> NULL"
  shows "fst (setup_instance_step h nk descr sp num_st gen_inst model st) = None"
proof -
  let ?call = "setup_instance descr \<lparr>kind = 2, name = GENname gen_inst\<rparr>
             (osdi_instance_data gen_inst) model
             (effective_temp (CKTtemp nk (ckt st)) (osdi_extra_instance_data gen_inst))
             (count_connected descr (terminals gen_inst)) sp (ckt st)"
  obtain init_info inst model1 c1 where call: "?call = (init_info, inst, model1, c1)"
    by (cases ?call)
  obtain r con1 where hd: "handle_init_info h init_info descr (console st) = (r, con1)"
    by (cases "handle_init_info h init_info descr (console st)")
  let ?b = "bind_instance nk descr num_st (count_connected descr (terminals gen_inst)) inst gen_inst
              (st\<lparr>res := r, console := con1, ckt := c1\<rparr>)"
  have "fst ?b = None"
    using assms by (rule bind_instance_None)
  then obtain g1 st1 where b: "?b = (None, g1, st1)"
    by (cases ?b) auto
  show ?thesis
    by (simp add: setup_instance_step_def Let_def call hd split_beta bind_instance_None [OF assms])
qed

lemma setup_instance_step_res_ok:
  assumes "\<forall>md t n sp' c. init_ok h (fst (setup_instance descr \<lparr>kind = 2, name = GENname gen_inst\<rparr>
              (osdi_instance_data gen_inst) md t n sp' c))"
  shows "res (snd (snd (snd (setup_instance_step h nk descr sp num_st gen_inst model st)))) = OK"
proof -
  let ?call = "setup_instance descr \<lparr>kind = 2, name = GENname gen_inst\<rparr>
             (osdi_instance_data gen_inst) model
             (effective_temp (CKTtemp nk (ckt st)) (osdi_extra_instance_data gen_inst))
             (count_connected descr (terminals gen_inst)) sp (ckt st)"
  obtain init_info inst model1 c1 where call: "?call = (init_info, inst, model1, c1)"
    by (cases ?call)
  have "init_ok h (fst ?call)"
    using assms by blast
  then have ok: "handle_init_info h init_info descr (console st) = (OK, console st)"
    using call by (simp add: handle_init_info_ok)
  let ?b = "bind_instance nk descr num_st (count_connected descr (terminals gen_inst)) inst gen_inst
              (st\<lparr>res := OK, console := console st, ckt := c1\<rparr>)"
  have "res (snd (snd ?b)) = OK"
    by (simp add: bind_instance_res)
  then show ?thesis
    by (simp add: setup_instance_step_def Let_def call ok split_beta)
qed

lemma setup_instances_None:
  assumes "\<forall>c g n. fst (CKTmkVolt nk c g n) = OK" and "\<forall>c g n. fst (CKTmkCur nk c g n) = OK"
    and "\<forall>c e u. fst (SMPmakeElt nk c e u) \<noteq> NULL"
  shows "fst (setup_instances h nk descr sp num_st insts model st) = None"
proof (induction insts arbitrary: model st)
  case Nil
  show ?case by simp
next
  case (Cons g insts)
  let ?s = "setup_instance_step h nk descr sp num_st g model st"
  have "fst ?s = None"
    using assms by (rule setup_instance_step_None)
  then obtain g1 model1 st1 where s: "?s = (None, g1, model1, st1)"
    by (cases ?s) auto
  show ?case
    using Cons.IH [of model1 st1] s by (simp add: split_beta)
qed

lemma setup_instances_res_ok:
  assumes "\<forall>c g n. fst (CKTmkVolt nk c g n) = OK" and "\<forall>c g n. fst (CKTmkCur nk c g n) = OK"
    and "\<forall>c e u. fst (SMPmakeElt nk c e u) \<noteq> NULL"
    and "\<forall>g\<in>set insts. \<forall>md t n sp' c. init_ok h (fst (setup_instance descr \<lparr>kind = 2, name = GENname g\<rparr>
              (osdi_instance_data g) md t n sp' c))"
    and "res st = OK"
  shows "res (snd (snd (snd (setup_instances h nk descr sp num_st insts model st)))) = OK"
  using assms(4,5)
proof (induction insts arbitrary: model st)
  case Nil
  then show ?case by simp
next
  case (Cons g insts)
  let ?s = "setup_instance_step h nk descr sp num_st g model st"
  have "fst ?s = None"
    using assms(1-3) by (rule setup_instance_step_None)
  then obtain g1 model1 st1 where s: "?s = (None, g1, model1, st1)"
    by (cases ?s) auto
  have "res (snd (snd (snd ?s))) = OK"
    using Cons.prems(1) by (intro setup_instance_step_res_ok) simp
  then have r: "res st1 = OK"
    using s by simp
  have "res (snd (snd (snd (setup_instances h nk descr sp num_st insts model1 st1)))) = OK"
    using Cons.prems(1) r by (intro Cons.IH) simp_all
  then show ?case
    using s by (simp add: split_beta)
qed

lemma setup_model_step_None:
  assumes "\<forall>c g n. fst (CKTmkVolt nk c g n) = OK" and "\<forall>c g n. fst (CKTmkCur nk c g n) = OK"
    and "\<forall>c e u. fst (SMPmakeElt nk c e u) \<noteq> NULL"
  shows "fst (setup_model_step h nk descr sp num_st gen_model st) = None"
proof -
  let ?call = "setup_model descr \<lparr>kind = 1, name = GENmodName gen_model\<rparr>
                 (osdi_model_data gen_model) sp (ckt st)"
  obtain init_info model1 c1 where call: "?call = (init_info, model1, c1)"
    by (cases ?call)
  obtain r con1 where hd: "handle_init_info h init_info descr (console st) = (r, con1)"
    by (cases "handle_init_info h init_info descr (console st)")
  let ?i = "setup_instances h nk descr sp num_st (GENinstances gen_model) model1
              (st\<lparr>res := r, console := con1, ckt := c1\<rparr>)"
  have "fst ?i = None"
    using assms by (rule setup_instances_None)
  then obtain insts1 model2 st1 where i: "?i = (None, insts1, model2, st1)"
    by (cases ?i) auto
  show ?thesis
    by (simp add: setup_model_step_def call hd split_beta setup_instances_None [OF assms])
qed

lemma setup_models_None:
  assumes "\<forall>c g n. fst (CKTmkVolt nk c g n) = OK" and "\<forall>c g n. fst (CKTmkCur nk c g n) = OK"
    and "\<forall>c e u. fst (SMPmakeElt nk c e u) \<noteq> NULL"
  shows "fst (setup_models h nk descr sp num_st ms st) = None"
proof (induction ms arbitrary: st)
  case Nil
  show ?case by simp
next
  case (Cons m ms)
  let ?s = "setup_model_step h nk descr sp num_st m st"
  have "fst ?s = None"
    using assms by (rule setup_model_step_None)
  then obtain m1 st1 where s: "?s = (None, m1, st1)"
    by (cases ?s) auto
  show ?case
    using Cons.IH [of st1] s by (simp add: split_beta)
qed

lemma setup_model_step_res_ok:
  assumes "\<forall>c g n. fst (CKTmkVolt nk c g n) = OK" and "\<forall>c g n. fst (CKTmkCur nk c g n) = OK"
    and "\<forall>c e u. fst (SMPmakeElt nk c e u) \<noteq> NULL"
    and "\<forall>sp' c. init_ok h (fst (setup_model descr \<lparr>kind = 1, name = GENmodName m\<rparr>
              (osdi_model_data m) sp' c))"
    and "\<forall>g\<in>set (GENinstances m). \<forall>md t n sp' c.
            init_ok h (fst (setup_instance descr \<lparr>kind = 2, name = GENname g\<rparr>
              (osdi_instance_data g) md t n sp' c))"
  shows "res (snd (snd (setup_model_step h nk descr sp num_st m st))) = OK"
proof -
  let ?call = "setup_model descr \<lparr>kind = 1, name = GENmodName m\<rparr> (osdi_model_data m) sp (ckt st)"
  obtain init_info model1 c1 where call: "?call = (init_info, model1, c1)"
    by (cases ?call)
  have "init_ok h (fst ?call)"
    using assms(4) by blast
  then have ok: "handle_init_info h init_info descr (console st) = (OK, console st)"
    using call by (simp add: handle_init_info_ok)
  let ?st = "st\<lparr>res := OK, console := console st, ckt := c1\<rparr>"
  have "res (snd (snd (snd (setup_instances h nk descr sp num_st (GENinstances m) model1 ?st)))) = OK"
    using assms(1-3,5) by (rule setup_instances_res_ok) simp
  then show ?thesis
    by (simp add: setup_model_step_def call ok split_beta)
qed

lemma setup_models_append:
  "setup_models h nk descr sp num_st (ms @ ms') st =
     (case setup_models h nk descr sp num_st ms st of
        (Some e, ms1, st1) \<Rightarrow> (Some e, ms1 @ ms', st1)
      | (None, ms1, st1) \<Rightarrow>
          (case setup_models h nk descr sp num_st ms' st1 of
             (ret, ms2, st2) \<Rightarrow> (ret, ms1 @ ms2, st2)))"
proof (induction ms arbitrary: st)
  case Nil
  show ?case by (simp split: prod.splits)
next
  case (Cons m ms)
  show ?case
    by (simp add: Cons.IH split: prod.splits option.splits)
qed

text \<open>
  \<^bold>\<open>C9.\<close> The status that \<^verbatim>\<open>OSDIsetup\<close> returns is the one of the model
  processed last. If the node allocators and the matrix never fail (nothing
  makes the pass return early) and the entry points report nothing for the last
  model and its instances, the pass returns \<open>OK\<close>, whatever the earlier models
  reported.
\<close>

theorem OSDIsetup_returns_last_status:
  assumes "\<forall>c g n. fst (CKTmkVolt nk c g n) = OK" and "\<forall>c g n. fst (CKTmkCur nk c g n) = OK"
    and "\<forall>c e u. fst (SMPmakeElt nk c e u) \<noteq> NULL"
    and "\<forall>sp c. init_ok h (fst (setup_model descr \<lparr>kind = 1, name = GENmodName m\<rparr>
              (osdi_model_data m) sp c))"
    and "\<forall>g\<in>set (GENinstances m). \<forall>md t n sp c.
            init_ok h (fst (setup_instance descr \<lparr>kind = 2, name = GENname g\<rparr>
              (osdi_instance_data g) md t n sp c))"
  shows "fst (OSDIsetup h nk descr (ms @ [m]) st) = OK"
proof -
  let ?sp = "get_simparams nk (ckt st)"
  let ?n = "count_states descr"
  let ?st = "st\<lparr>res := OK, node_ids := replicate (length (OsdiDescriptor.nodes descr)) 0\<rparr>"
  let ?pre = "setup_models h nk descr ?sp ?n ms ?st"
  have "fst ?pre = None"
    using assms(1-3) by (rule setup_models_None)
  then obtain ms1 st1 where pre: "?pre = (None, ms1, st1)"
    by (cases ?pre) auto
  let ?last = "setup_model_step h nk descr ?sp ?n m st1"
  have "fst ?last = None"
    using assms(1-3) by (rule setup_model_step_None)
  moreover have "res (snd (snd ?last)) = OK"
    using assms by (rule setup_model_step_res_ok)
  ultimately obtain m1 st2 where last: "?last = (None, m1, st2)" and r: "res st2 = OK"
    by (cases ?last) auto
  show ?thesis
    by (simp add: OSDIsetup_def setup_models_append pre last r)
qed

theorem OSDIsetup_returns_last_status_witness:
  "fst (handle_init_info h0 (fst (setup_model d_fet \<lparr>kind = 1, name = GENmodName M1\<rparr>
          (osdi_model_data M1) () sim0)) d_fet con0) = E_PANIC \<and>
   fst (OSDIsetup h0 nk0 d_fet ([M1] @ [M2]) st0) = OK"
proof -
  have a: "\<forall>c g n. fst (CKTmkVolt nk0 c g n) = OK" "\<forall>c g n. fst (CKTmkCur nk0 c g n) = OK"
    "\<forall>c e u. fst (SMPmakeElt nk0 c e u) \<noteq> NULL"
    by (simp_all add: nk0_def NULL_def)
  have m: "\<forall>sp c. init_ok h0 (fst (setup_model d_fet \<lparr>kind = 1, name = GENmodName M2\<rparr>
              (osdi_model_data M2) sp c))"
    by (simp add: d_fet_def M2_def init_ok_def info_ok_def fatal_or_finish_def)
  have i: "\<forall>g\<in>set (GENinstances M2). \<forall>md t n sp c.
            init_ok h0 (fst (setup_instance d_fet \<lparr>kind = 2, name = GENname g\<rparr>
              (osdi_instance_data g) md t n sp c))"
    by (simp add: d_fet_def init_ok_def info_ok_def fatal_or_finish_def)
  have p: "fst (handle_init_info h0 (fst (setup_model d_fet \<lparr>kind = 1, name = GENmodName M1\<rparr>
          (osdi_model_data M1) () sim0)) d_fet con0) = E_PANIC"
    by code_simp
  show ?thesis
    using p OSDIsetup_returns_last_status [OF a m i, of "[M1]" st0] by simp
qed

text \<open>
  \<^bold>\<open>C1 (amended).\<close> When \<open>setup_model\<close> reports the fatal or the finish flag for
  a model, the instances of that model are not processed and \<open>res\<close> becomes
  \<open>E_PANIC\<close>, but the pass is not aborted: the loop goes on with the models that
  follow, from the state after the call, and the status returned is the one
  the rest of the list leaves in \<open>res\<close>. It is \<open>E_PANIC\<close> when the model is the
  last one.
\<close>

theorem fatal_model_skipped_pass_continues:
  assumes call: "setup_model descr \<lparr>kind = 1, name = GENmodName m\<rparr> (osdi_model_data m)
                   (get_simparams nk (ckt st)) (ckt st) = (info, model1, c1)"
    and fatal: "flags info AND EVAL_RET_FLAG_FATAL h \<noteq> 0 \<or> flags info AND EVAL_RET_FLAG_FINISH h \<noteq> 0"
  shows "OSDIsetup h nk descr (m # rest) st =
           (case setup_models h nk descr (get_simparams nk (ckt st)) (count_states descr) rest
                   (st\<lparr>res := E_PANIC, errRtn := Some ''OSDI setup_model'', ckt := c1,
                      node_ids := replicate (length (OsdiDescriptor.nodes descr)) 0\<rparr>) of
              (Some e, rest1, st1) \<Rightarrow> (e, m\<lparr>osdi_model_data := model1\<rparr> # rest1, st1)
            | (None, rest1, st1) \<Rightarrow> (res st1, m\<lparr>osdi_model_data := model1\<rparr> # rest1, st1)) \<and>
         fst (OSDIsetup h nk descr [m] st) = E_PANIC"
proof -
  have f: "fatal_or_finish h info"
    using fatal by (simp add: fatal_or_finish_iff)
  have step: "setup_model_step h nk descr (get_simparams nk (ckt st)) (count_states descr) m
                (st\<lparr>res := OK, node_ids := replicate (length (OsdiDescriptor.nodes descr)) 0\<rparr>)
              = (None, m\<lparr>osdi_model_data := model1\<rparr>,
                 st\<lparr>res := E_PANIC, errRtn := Some ''OSDI setup_model'', ckt := c1,
                    node_ids := replicate (length (OsdiDescriptor.nodes descr)) 0\<rparr>)"
    using call by (simp add: setup_model_step_def handle_init_info_fatal [OF f])
  show ?thesis
    by (simp add: OSDIsetup_def step split: prod.splits option.splits)
qed

theorem fatal_model_skipped_pass_continues_witness:
  "flags info_fatal AND EVAL_RET_FLAG_FATAL h0 \<noteq> 0 \<and>
   fst (setup_model d_fet \<lparr>kind = 1, name = GENmodName M1\<rparr> (osdi_model_data M1)
          (get_simparams nk0 (ckt st0)) (ckt st0)) = info_fatal \<and>
   fst (OSDIsetup h0 nk0 d_fet [M1] st0) = E_PANIC \<and>
   hd (fst (snd (OSDIsetup h0 nk0 d_fet [M1, M2] st0))) = M1 \<and>
   fst (OSDIsetup h0 nk0 d_fet [M1, M2] st0) = OK"
proof -
  let ?c = "setup_model d_fet \<lparr>kind = 1, name = GENmodName M1\<rparr> (osdi_model_data M1)
              (get_simparams nk0 (ckt st0)) (ckt st0)"
  have call: "?c = (info_fatal, (), snd (snd ?c))"
    by (simp add: d_fet_def M1_def)
  have fatal: "flags info_fatal AND EVAL_RET_FLAG_FATAL h0 \<noteq> 0
               \<or> flags info_fatal AND EVAL_RET_FLAG_FINISH h0 \<noteq> 0"
    by (simp add: info_fatal_def h0_def)
  note th = fatal_model_skipped_pass_continues [OF call fatal]
  have one: "fst (OSDIsetup h0 nk0 d_fet [M1] st0) = E_PANIC"
    using th [where rest = "[]"] by simp
  have two: "hd (fst (snd (OSDIsetup h0 nk0 d_fet [M1, M2] st0))) = M1"
    using th [where rest = "[M2]"] by (simp add: M1_def split: prod.splits option.splits)
  have ok: "fst (OSDIsetup h0 nk0 d_fet [M1, M2] st0) = OK"
    by code_simp
  have f1: "flags info_fatal AND EVAL_RET_FLAG_FATAL h0 \<noteq> 0"
    by (simp add: info_fatal_def h0_def)
  have c1: "fst ?c = info_fatal"
    by (simp add: d_fet_def M1_def)
  show ?thesis
    using f1 c1 one two ok by simp
qed

subsection \<open>State slots\<close>



















end
